theory Spec2Isabelle
  imports Complex_Main "HOL-Library.AList"
begin

section \<open>Python values and dictionaries\<close>

text \<open>
  The services pass loosely typed dictionaries around (\<^verbatim>\<open>soil_data\<close>,
  \<^verbatim>\<open>weather_data\<close>, parsed JSON). A value is one of the Python values that can
  occur in them. Numbers (\<^verbatim>\<open>int\<close> and \<^verbatim>\<open>float\<close>) are idealised as reals:
  rounding, infinities and NaN of IEEE doubles are not modelled. A dictionary is an
  association list in insertion order; \<open>map_of\<close> is the lookup and
  \<open>AList.update\<close> the store (an existing key keeps its place, a new key goes last,
  as in Python).
\<close>

datatype pyval =
    PNone
  | PBool bool
  | PNum real
  | PStr string
  | PList "pyval list"
  | PDict "(string \<times> pyval) list"

type_synonym dict = "(string \<times> pyval) list"

datatype py_error =
  TypeError | AttributeError | KeyError | IndexError | ValueError | ValidationError | HTTPError

text \<open>Truth value of a Python object, as \<^verbatim>\<open>if x:\<close> tests it.\<close>

fun truthy :: "pyval \<Rightarrow> bool" where
  "truthy PNone = False"
| "truthy (PBool b) = b"
| "truthy (PNum x) = (x \<noteq> 0)"
| "truthy (PStr s) = (s \<noteq> [])"
| "truthy (PList xs) = (xs \<noteq> [])"
| "truthy (PDict d) = (d \<noteq> [])"

text \<open>\<^verbatim>\<open>d.get(k)\<close> and \<^verbatim>\<open>d.get(k, default)\<close>.\<close>

definition dict_get :: "dict \<Rightarrow> string \<Rightarrow> pyval" where
  "dict_get d k = (case map_of d k of None \<Rightarrow> PNone | Some v \<Rightarrow> v)"

definition dict_get_default :: "dict \<Rightarrow> string \<Rightarrow> pyval \<Rightarrow> pyval" where
  "dict_get_default d k dflt = (case map_of d k of None \<Rightarrow> dflt | Some v \<Rightarrow> v)"

text \<open>
  The operand of an arithmetic operation or of an ordering comparison with a number:
  a number, or a \<^verbatim>\<open>bool\<close> (a subclass of \<^verbatim>\<open>int\<close>); for every other value Python
  raises \<^verbatim>\<open>TypeError\<close>.
\<close>

fun as_number :: "pyval \<Rightarrow> py_error + real" where
  "as_number (PNum x) = Inr x"
| "as_number (PBool b) = Inr (if b then 1 else 0)"
| "as_number PNone = Inl TypeError"
| "as_number (PStr s) = Inl TypeError"
| "as_number (PList xs) = Inl TypeError"
| "as_number (PDict d) = Inl TypeError"

text \<open>
  Python built-ins whose results depend on the binary representation of floats or on
  the text of a number are parameters of the model: \<^verbatim>\<open>round(x, 2)\<close>, the format
  specifications \<^verbatim>\<open>.1f\<close> and \<^verbatim>\<open>,\<close>, \<^verbatim>\<open>str\<close>, and \<^verbatim>\<open>float\<close> of a string
  (\<^verbatim>\<open>None\<close> where it raises \<^verbatim>\<open>ValueError\<close>). At a decimal tie such as \<^verbatim>\<open>0.575\<close>
  the result of \<^verbatim>\<open>round\<close> follows the nearest double, not the decimal. The method
  \<^verbatim>\<open>str.lower\<close> is a parameter as well: it follows the Unicode case mapping (the
  Kelvin sign U+212A, for one, is lowered to the letter k), which a function on the
  ASCII letters does not give.
\<close>

record py_builtins =
  round2 :: "real \<Rightarrow> real"
  format_1f :: "real \<Rightarrow> string"
  format_thousands :: "nat \<Rightarrow> string"
  str_of :: "pyval \<Rightarrow> string"
  float_of_str :: "string \<Rightarrow> real option"
  str_lower :: "string \<Rightarrow> string"

text \<open>\<^verbatim>\<open>float(x)\<close>.\<close>

definition py_float :: "py_builtins \<Rightarrow> pyval \<Rightarrow> py_error + real" where
  "py_float B x =
     (case x of
        PNum r \<Rightarrow> Inr r
      | PBool b \<Rightarrow> Inr (if b then 1 else 0)
      | PStr s \<Rightarrow> (case float_of_str B s of None \<Rightarrow> Inl ValueError | Some r \<Rightarrow> Inr r)
      | _ \<Rightarrow> Inl TypeError)"

text \<open>\<^verbatim>\<open>len(x)\<close>.\<close>

definition py_len :: "pyval \<Rightarrow> py_error + nat" where
  "py_len x =
     (case x of
        PList xs \<Rightarrow> Inr (length xs)
      | PDict d \<Rightarrow> Inr (length d)
      | PStr s \<Rightarrow> Inr (length s)
      | _ \<Rightarrow> Inl TypeError)"

text \<open>
  \<^verbatim>\<open>obj.name\<close> on an instance of a class of this repository: the attributes are the
  names the class body and \<^verbatim>\<open>__init__\<close> define; any other name raises
  \<^verbatim>\<open>AttributeError\<close>.
\<close>

definition getattr :: "string list \<Rightarrow> string \<Rightarrow> py_error + unit" where
  "getattr attributes name = (if name \<in> set attributes then Inr () else Inl AttributeError)"

section \<open>The crop catalogue (services/recommender.py)\<close>

text \<open>
  One entry of \<^verbatim>\<open>crop_database\<close>. Every entry of the catalogue has all nine keys, so
  an entry is a record; the field names are the dictionary keys.
\<close>

record crop =
  ph_range :: "real \<times> real"
  temp_range :: "real \<times> real"
  water :: string
  duration :: nat
  season :: "string list"
  nitrogen :: real
  profit_per_hectare :: nat
  yield_per_hectare :: real
  sustainability :: real

definition Rice :: crop where
  "Rice = \<lparr>ph_range = (5.5, 7.0), temp_range = (20, 35), water = ''High'', duration = 120,
     season = [''Kharif'', ''Rabi''], nitrogen = 120, profit_per_hectare = 45000,
     yield_per_hectare = 4.0, sustainability = 7.0\<rparr>"

definition Wheat :: crop where
  "Wheat = \<lparr>ph_range = (6.0, 7.5), temp_range = (15, 25), water = ''Medium'', duration = 120,
     season = [''Rabi''], nitrogen = 100, profit_per_hectare = 65000,
     yield_per_hectare = 4.5, sustainability = 8.5\<rparr>"

definition Sugarcane :: crop where
  "Sugarcane = \<lparr>ph_range = (6.0, 7.5), temp_range = (25, 35), water = ''High'', duration = 365,
     season = [''Year-round''], nitrogen = 200, profit_per_hectare = 120000,
     yield_per_hectare = 70.0, sustainability = 6.0\<rparr>"

definition Cotton :: crop where
  "Cotton = \<lparr>ph_range = (6.0, 8.0), temp_range = (21, 30), water = ''Medium'', duration = 180,
     season = [''Kharif''], nitrogen = 120, profit_per_hectare = 55000,
     yield_per_hectare = 2.5, sustainability = 6.5\<rparr>"

definition Maize :: crop where
  "Maize = \<lparr>ph_range = (5.5, 7.0), temp_range = (20, 30), water = ''Medium'', duration = 90,
     season = [''Kharif'', ''Rabi''], nitrogen = 150, profit_per_hectare = 40000,
     yield_per_hectare = 3.5, sustainability = 8.0\<rparr>"

definition Groundnut :: crop where
  "Groundnut = \<lparr>ph_range = (6.0, 7.0), temp_range = (25, 30), water = ''Low'', duration = 120,
     season = [''Kharif''], nitrogen = 25, profit_per_hectare = 50000,
     yield_per_hectare = 2.0, sustainability = 9.0\<rparr>"

definition Pulses :: crop where
  "Pulses = \<lparr>ph_range = (6.0, 7.5), temp_range = (20, 30), water = ''Low'', duration = 90,
     season = [''Rabi''], nitrogen = 20, profit_per_hectare = 35000,
     yield_per_hectare = 1.5, sustainability = 9.5\<rparr>"

definition Potato :: crop where
  "Potato = \<lparr>ph_range = (5.0, 6.5), temp_range = (15, 25), water = ''Medium'', duration = 90,
     season = [''Rabi''], nitrogen = 120, profit_per_hectare = 80000,
     yield_per_hectare = 25.0, sustainability = 7.5\<rparr>"

definition Tomato :: crop where
  "Tomato = \<lparr>ph_range = (6.0, 7.0), temp_range = (18, 27), water = ''Medium'', duration = 120,
     season = [''Rabi'', ''Summer''], nitrogen = 100, profit_per_hectare = 90000,
     yield_per_hectare = 30.0, sustainability = 7.0\<rparr>"

definition Onion :: crop where
  "Onion = \<lparr>ph_range = (6.0, 7.0), temp_range = (20, 30), water = ''Medium'', duration = 120,
     season = [''Kharif'', ''Rabi''], nitrogen = 100, profit_per_hectare = 70000,
     yield_per_hectare = 20.0, sustainability = 7.5\<rparr>"

text \<open>The catalogue in insertion order, which is the order \<^verbatim>\<open>.items()\<close> iterates in.\<close>

definition crop_database :: "(string \<times> crop) list" where
  "crop_database =
     [(''Rice'', Rice), (''Wheat'', Wheat), (''Sugarcane'', Sugarcane), (''Cotton'', Cotton),
      (''Maize'', Maize), (''Groundnut'', Groundnut), (''Pulses'', Pulses),
      (''Potato'', Potato), (''Tomato'', Tomato), (''Onion'', Onion)]"

section \<open>The suitability score (calculate\_crop\_score)\<close>

text \<open>
  The function keeps two accumulators, \<^verbatim>\<open>score\<close> and \<^verbatim>\<open>max_score\<close>. Each factor
  first adds its weight to \<^verbatim>\<open>max_score\<close> and then, under an \<^verbatim>\<open>if\<close> on the datum,
  adds the points it awards to \<^verbatim>\<open>score\<close>. The four functions below are the points
  each \<^verbatim>\<open>if\<close> block adds; a comparison of a non-number with a number raises.
\<close>

definition ph_points :: "crop \<Rightarrow> dict \<Rightarrow> py_error + real" where
  "ph_points crop_data soil_data =
     (if truthy (dict_get soil_data ''ph'') then
        (case as_number (dict_get soil_data ''ph'') of
           Inl e \<Rightarrow> Inl e
         | Inr ph \<Rightarrow>
             (let ph_min = fst (ph_range crop_data); ph_max = snd (ph_range crop_data) in
              if ph_min \<le> ph \<and> ph \<le> ph_max then Inr 30
              else if \<bar>ph - ph_min\<bar> \<le> 0.5 \<or> \<bar>ph - ph_max\<bar> \<le> 0.5 then Inr 20
              else if \<bar>ph - ph_min\<bar> \<le> 1.0 \<or> \<bar>ph - ph_max\<bar> \<le> 1.0 then Inr 10
              else Inr 0))
      else Inr 0)"

definition temp_points :: "crop \<Rightarrow> dict \<Rightarrow> py_error + real" where
  "temp_points crop_data weather_data =
     (if truthy (dict_get weather_data ''temperature'') then
        (case as_number (dict_get weather_data ''temperature'') of
           Inl e \<Rightarrow> Inl e
         | Inr temp \<Rightarrow>
             (let temp_min = fst (temp_range crop_data); temp_max = snd (temp_range crop_data) in
              if temp_min \<le> temp \<and> temp \<le> temp_max then Inr 25
              else if \<bar>temp - temp_min\<bar> \<le> 3 \<or> \<bar>temp - temp_max\<bar> \<le> 3 then Inr 15
              else if \<bar>temp - temp_min\<bar> \<le> 5 \<or> \<bar>temp - temp_max\<bar> \<le> 5 then Inr 8
              else Inr 0))
      else Inr 0)"

definition season_points :: "crop \<Rightarrow> string \<Rightarrow> real" where
  "season_points crop_data current_season =
     (if current_season \<in> set (season crop_data) then 20 else 0)"

definition nitrogen_points :: "crop \<Rightarrow> dict \<Rightarrow> py_error + real" where
  "nitrogen_points crop_data soil_data =
     (if truthy (dict_get soil_data ''nitrogen'') then
        (case as_number (dict_get soil_data ''nitrogen'') of
           Inl e \<Rightarrow> Inl e
         | Inr n \<Rightarrow>
             (let required = nitrogen crop_data in
              if n \<ge> required then Inr 15
              else if n \<ge> required * 0.8 then Inr 10
              else if n \<ge> required * 0.6 then Inr 5
              else Inr 0))
      else Inr 0)"

text \<open>
  The two accumulators at the \<^verbatim>\<open>return\<close> statement: (\<^verbatim>\<open>score\<close>, \<^verbatim>\<open>max_score\<close>).
  The additions to \<^verbatim>\<open>max_score\<close> stand outside the \<^verbatim>\<open>if\<close> blocks.
\<close>

definition score_parts :: "crop \<Rightarrow> dict \<Rightarrow> dict \<Rightarrow> string \<Rightarrow> py_error + (real \<times> real)" where
  "score_parts crop_data soil_data weather_data current_season =
     (case ph_points crop_data soil_data of
        Inl e \<Rightarrow> Inl e
      | Inr p_ph \<Rightarrow>
     (case temp_points crop_data weather_data of
        Inl e \<Rightarrow> Inl e
      | Inr p_temp \<Rightarrow>
     (case nitrogen_points crop_data soil_data of
        Inl e \<Rightarrow> Inl e
      | Inr p_n \<Rightarrow>
          Inr (0 + p_ph + p_temp + season_points crop_data current_season + p_n
                 + sustainability crop_data,
               0 + 30 + 25 + 20 + 15 + 10))))"

definition calculate_crop_score :: "crop \<Rightarrow> dict \<Rightarrow> dict \<Rightarrow> string \<Rightarrow> py_error + real" where
  "calculate_crop_score crop_data soil_data weather_data current_season =
     (case score_parts crop_data soil_data weather_data current_season of
        Inl e \<Rightarrow> Inl e
      | Inr (score, max_score) \<Rightarrow> Inr (if max_score > 0 then score / max_score else 0))"

text \<open>
  The normalisation as the specification words it, for comparison: a factor counts
  towards the points possible only when its datum is known (the season and the
  sustainability rating are always known).
\<close>

definition spec_points_possible :: "dict \<Rightarrow> dict \<Rightarrow> real" where
  "spec_points_possible soil_data weather_data =
     (if truthy (dict_get soil_data ''ph'') then 30 else 0)
     + (if truthy (dict_get weather_data ''temperature'') then 25 else 0)
     + 20
     + (if truthy (dict_get soil_data ''nitrogen'') then 15 else 0)
     + 10"

definition spec_score :: "crop \<Rightarrow> dict \<Rightarrow> dict \<Rightarrow> string \<Rightarrow> py_error + real" where
  "spec_score crop_data soil_data weather_data current_season =
     (case score_parts crop_data soil_data weather_data current_season of
        Inl e \<Rightarrow> Inl e
      | Inr (score, max_score) \<Rightarrow> Inr (score / spec_points_possible soil_data weather_data))"

section \<open>The geophysical data source adapter (services/bhuvan\_api.py)\<close>

text \<open>
  The outside world is a function from the URL requested to what the request does:
  a transport failure (connection error, timeout), an HTTP error status (which
  \<^verbatim>\<open>raise_for_status\<close> turns into an exception), a body that is not JSON, or a parsed
  JSON value. Every adapter operation returns the list of URLs it requested together
  with its result, so that "no network attempt" is the empty list.
\<close>

datatype http_outcome = TransportError | StatusError | NotJson | Payload pyval

type_synonym network = "string \<Rightarrow> http_outcome"

type_synonym 'a io = "string list \<times> 'a"

definition BASE_URL :: string where
  "BASE_URL = ''https://bhuvan-app3.nrsc.gov.in/api''"

definition SOILGRIDS_URL :: string where
  "SOILGRIDS_URL = ''https://rest.isric.org/soilgrids/v2.0/properties/query''"

text \<open>
  \<^verbatim>\<open>client.get(url)\<close>, \<^verbatim>\<open>raise_for_status()\<close> and \<^verbatim>\<open>response.json()\<close>: both httpx
  exceptions are subclasses of \<^verbatim>\<open>httpx.HTTPError\<close>; a body that is not JSON raises a
  \<^verbatim>\<open>ValueError\<close>.
\<close>

definition http_get_json :: "network \<Rightarrow> string \<Rightarrow> py_error + pyval" where
  "http_get_json net url =
     (case net url of
        TransportError \<Rightarrow> Inl HTTPError
      | StatusError \<Rightarrow> Inl HTTPError
      | NotJson \<Rightarrow> Inl ValueError
      | Payload v \<Rightarrow> Inr v)"

text \<open>\<^verbatim>\<open>x.get(k, default)\<close> on an arbitrary value: only a dictionary has the method.\<close>

definition py_get :: "pyval \<Rightarrow> string \<Rightarrow> pyval \<Rightarrow> py_error + pyval" where
  "py_get x k dflt =
     (case x of PDict d \<Rightarrow> Inr (dict_get_default d k dflt) | _ \<Rightarrow> Inl AttributeError)"

text \<open>\<^verbatim>\<open>for item in x\<close>: the items a value yields, or the \<^verbatim>\<open>TypeError\<close> of a value
  that is not iterable. A dictionary yields its keys, a string its characters.\<close>

definition py_iter :: "pyval \<Rightarrow> py_error + pyval list" where
  "py_iter x =
     (case x of
        PList xs \<Rightarrow> Inr xs
      | PDict d \<Rightarrow> Inr (map (\<lambda>kv. PStr (fst kv)) d)
      | PStr s \<Rightarrow> Inr (map (\<lambda>c. PStr [c]) s)
      | _ \<Rightarrow> Inl TypeError)"

text \<open>\<^verbatim>\<open>x[0]\<close>: a JSON object has string keys only, so the key \<^verbatim>\<open>0\<close> is missing;
  numbers, booleans and \<^verbatim>\<open>None\<close> are not subscriptable.\<close>

definition py_first :: "pyval \<Rightarrow> py_error + pyval" where
  "py_first x =
     (case x of
        PList xs \<Rightarrow> (case xs of [] \<Rightarrow> Inl IndexError | y # ys \<Rightarrow> Inr y)
      | PStr s \<Rightarrow> (case s of [] \<Rightarrow> Inl IndexError | c # cs \<Rightarrow> Inr (PStr [c]))
      | PDict d \<Rightarrow> Inl KeyError
      | _ \<Rightarrow> Inl TypeError)"

subsection \<open>Fallback estimates\<close>

text \<open>\<^verbatim>\<open>_get_fallback_geocode\<close>: the table is keyed by the lowercased state.\<close>

definition state_coords :: "(string \<times> (real \<times> real)) list" where
  "state_coords =
     [(''punjab'', (30.9010, 75.8573)),
      (''haryana'', (29.0588, 76.0856)),
      (''uttar pradesh'', (26.8467, 80.9462)),
      (''madhya pradesh'', (22.9734, 78.6569)),
      (''rajasthan'', (27.0238, 74.2179)),
      (''maharashtra'', (19.7515, 75.7139)),
      (''karnataka'', (15.3173, 75.7139)),
      (''tamil nadu'', (11.1271, 78.6569)),
      (''andhra pradesh'', (15.9129, 79.7400)),
      (''telangana'', (18.1124, 79.0193)),
      (''delhi'', (28.7041, 77.1025)),
      (''bihar'', (25.0961, 85.3131)),
      (''west bengal'', (22.9868, 87.8550)),
      (''odisha'', (20.9517, 85.0985)),
      (''kerala'', (10.8505, 76.2711)),
      (''gujarat'', (22.2587, 71.1924))]"

definition get_fallback_geocode :: "py_builtins \<Rightarrow> string \<Rightarrow> string \<Rightarrow> dict" where
  "get_fallback_geocode B village state =
     (let coords = (case map_of state_coords (str_lower B state) of
                      None \<Rightarrow> (20.5937, 78.9629)
                    | Some c \<Rightarrow> c)
      in [(''lat'', PNum (fst coords)),
          (''lon'', PNum (snd coords)),
          (''village'', PStr village),
          (''district'', PStr ''Unknown''),
          (''state'', PStr state),
          (''fallback'', PBool True)])"

definition get_fallback_lulc :: "pyval \<Rightarrow> pyval \<Rightarrow> dict" where
  "get_fallback_lulc lat lon =
     [(''soil_type'', PStr ''loamy''),
      (''land_use'', PStr ''agricultural''),
      (''vegetation_index'', PNum 0.6),
      (''soil_moisture'', PStr ''medium''),
      (''elevation'', PNum 300),
      (''fallback'', PBool True)]"

definition get_fallback_soil_properties :: dict where
  "get_fallback_soil_properties =
     [(''soil_type'', PStr ''loamy''),
      (''ph'', PNum 6.8),
      (''organic_carbon'', PNum 1.2),
      (''nitrogen'', PStr ''medium''),
      (''phosphorus'', PStr ''medium''),
      (''potassium'', PStr ''medium''),
      (''soil_moisture'', PStr ''medium''),
      (''fallback'', PBool True)]"

subsection \<open>The three operations\<close>

text \<open>The attributes of \<^verbatim>\<open>BhuvanAPIService\<close>.\<close>

definition BhuvanAPIService_attributes :: "string list" where
  "BhuvanAPIService_attributes =
     [''BASE_URL'', ''geocode_token'', ''lulc_token'', ''get_village_geocode'', ''get_lulc_data'',
      ''get_soil_properties'', ''_get_soilgrids_data'', ''_get_fallback_geocode'',
      ''_get_fallback_lulc'', ''_get_fallback_soil_properties'']"

text \<open>The statements of \<^verbatim>\<open>get_village_geocode\<close> from \<^verbatim>\<open>data = response.json()\<close> on.\<close>

definition geocode_of_payload ::
    "py_builtins \<Rightarrow> pyval \<Rightarrow> string \<Rightarrow> string \<Rightarrow> py_error + dict" where
  "geocode_of_payload B data village state =
     (if truthy data then
        (case py_len data of
           Inl e \<Rightarrow> Inl e
         | Inr n \<Rightarrow>
             if n > 0 then
               (case py_first data of
                  Inl e \<Rightarrow> Inl e
                | Inr result \<Rightarrow>
               (case py_get result ''lat'' (PNum 0) of
                  Inl e \<Rightarrow> Inl e
                | Inr lat_v \<Rightarrow>
               (case py_float B lat_v of
                  Inl e \<Rightarrow> Inl e
                | Inr lat \<Rightarrow>
               (case py_get result ''lon'' (PNum 0) of
                  Inl e \<Rightarrow> Inl e
                | Inr lon_v \<Rightarrow>
               (case py_float B lon_v of
                  Inl e \<Rightarrow> Inl e
                | Inr lon \<Rightarrow>
               (case result of
                  PDict r \<Rightarrow>
                    Inr [(''lat'', PNum lat),
                         (''lon'', PNum lon),
                         (''village'', dict_get_default r ''display_name'' (PStr village)),
                         (''district'', dict_get_default r ''district'' (PStr [])),
                         (''state'', dict_get_default r ''state'' (PStr state))]
                | _ \<Rightarrow> Inl AttributeError))))))
             else Inr (get_fallback_geocode B village state))
      else Inr (get_fallback_geocode B village state))"

text \<open>
  The \<^verbatim>\<open>try\<close> block of \<^verbatim>\<open>get_village_geocode\<close>. The request is written
  \<^verbatim>\<open>client.get(url, params=params, headers=self.headers)\<close>: the arguments are
  evaluated before the call, and \<^verbatim>\<open>self.headers\<close> is an attribute lookup on the
  service object (the dictionary built at the top of the method is the local variable
  \<^verbatim>\<open>headers\<close>). When the lookup raises, no request is sent.
\<close>

definition geocode_try ::
    "py_builtins \<Rightarrow> network \<Rightarrow> string \<Rightarrow> string \<Rightarrow> (py_error + dict) io" where
  "geocode_try B net village state =
     (case getattr BhuvanAPIService_attributes ''headers'' of
        Inl e \<Rightarrow> ([], Inl e)
      | Inr headers \<Rightarrow>
          ([BASE_URL @ ''/geocode''],
           (case http_get_json net (BASE_URL @ ''/geocode'') of
              Inl e \<Rightarrow> Inl e
            | Inr data \<Rightarrow> geocode_of_payload B data village state)))"

text \<open>\<^verbatim>\<open>get_village_geocode\<close>: both handlers (\<^verbatim>\<open>except httpx.HTTPError\<close> and
  \<^verbatim>\<open>except Exception\<close>) return the fallback.\<close>

definition get_village_geocode ::
    "py_builtins \<Rightarrow> string \<Rightarrow> network \<Rightarrow> string \<Rightarrow> string \<Rightarrow> (py_error + dict) io" where
  "get_village_geocode B geocode_token net village state =
     (if geocode_token = [] then ([], Inr (get_fallback_geocode B village state))
      else (case geocode_try B net village state of
              (reqs, Inl e) \<Rightarrow> (reqs, Inr (get_fallback_geocode B village state))
            | (reqs, Inr v) \<Rightarrow> (reqs, Inr v)))"

text \<open>\<^verbatim>\<open>get_lulc_data\<close>: the \<^verbatim>\<open>try\<close> block, with the local \<^verbatim>\<open>headers\<close>, and the
  operation with its handlers.\<close>

definition lulc_try :: "network \<Rightarrow> pyval \<Rightarrow> pyval \<Rightarrow> (py_error + dict) io" where
  "lulc_try net lat lon =
     ([BASE_URL @ ''/lulc/query''],
      (case http_get_json net (BASE_URL @ ''/lulc/query'') of
         Inl e \<Rightarrow> Inl e
       | Inr data \<Rightarrow>
           (case data of
              PDict d \<Rightarrow>
                Inr [(''soil_type'', dict_get_default d ''soil_type'' (PStr ''loamy'')),
                     (''land_use'', dict_get_default d ''land_use'' (PStr ''agricultural'')),
                     (''vegetation_index'', dict_get_default d ''ndvi'' (PNum 0.5)),
                     (''soil_moisture'', dict_get_default d ''moisture'' (PStr ''medium'')),
                     (''elevation'', dict_get_default d ''elevation'' (PNum 300))]
            | _ \<Rightarrow> Inl AttributeError)))"

definition get_lulc_data ::
    "string \<Rightarrow> network \<Rightarrow> pyval \<Rightarrow> pyval \<Rightarrow> (py_error + dict) io" where
  "get_lulc_data lulc_token net lat lon =
     (if lulc_token = [] then ([], Inr (get_fallback_lulc lat lon))
      else (case lulc_try net lat lon of
              (reqs, Inl e) \<Rightarrow> (reqs, Inr (get_fallback_lulc lat lon))
            | (reqs, Inr v) \<Rightarrow> (reqs, Inr v)))"

text \<open>
  The loop of \<^verbatim>\<open>_get_soilgrids_data\<close> over the layers, with the dictionary
  \<^verbatim>\<open>result\<close> it fills. The value is read before the name is tested, and is divided
  or compared only for the three names the loop knows.
\<close>

fun soilgrids_layers :: "pyval list \<Rightarrow> dict \<Rightarrow> py_error + dict" where
  "soilgrids_layers [] result = Inr result"
| "soilgrids_layers (layer # rest) result =
     (case py_get layer ''name'' PNone of
        Inl e \<Rightarrow> Inl e
      | Inr name \<Rightarrow>
     (case py_get layer ''depths'' (PList []) of
        Inl e \<Rightarrow> Inl e
      | Inr depths \<Rightarrow>
          if truthy depths then
            (case py_first depths of
               Inl e \<Rightarrow> Inl e
             | Inr d0 \<Rightarrow>
            (case py_get d0 ''values'' (PDict []) of
               Inl e \<Rightarrow> Inl e
             | Inr vals \<Rightarrow>
            (case py_get vals ''mean'' (PNum 0) of
               Inl e \<Rightarrow> Inl e
             | Inr v \<Rightarrow>
                 if name = PStr ''phh2o'' then
                   (case as_number v of
                      Inl e \<Rightarrow> Inl e
                    | Inr x \<Rightarrow> soilgrids_layers rest (AList.update ''ph'' (PNum (x / 10)) result))
                 else if name = PStr ''soc'' then
                   (case as_number v of
                      Inl e \<Rightarrow> Inl e
                    | Inr x \<Rightarrow>
                        soilgrids_layers rest (AList.update ''organic_carbon'' (PNum (x / 10)) result))
                 else if name = PStr ''nitrogen'' then
                   (case as_number v of
                      Inl e \<Rightarrow> Inl e
                    | Inr x \<Rightarrow>
                        soilgrids_layers rest
                          (AList.update ''nitrogen''
                             (PStr (if x > 2000 then ''high''
                                    else if x > 1000 then ''medium'' else ''low''))
                             result))
                 else soilgrids_layers rest result)))
          else soilgrids_layers rest result))"

definition soilgrids_try :: "network \<Rightarrow> pyval \<Rightarrow> pyval \<Rightarrow> (py_error + dict) io" where
  "soilgrids_try net lat lon =
     ([SOILGRIDS_URL],
      (case http_get_json net SOILGRIDS_URL of
         Inl e \<Rightarrow> Inl e
       | Inr data \<Rightarrow>
      (case py_get data ''properties'' (PDict []) of
         Inl e \<Rightarrow> Inl e
       | Inr properties \<Rightarrow>
      (case py_get properties ''layers'' (PList []) of
         Inl e \<Rightarrow> Inl e
       | Inr layers \<Rightarrow>
      (case py_iter layers of
         Inl e \<Rightarrow> Inl e
       | Inr ls \<Rightarrow> soilgrids_layers ls [])))))"

text \<open>\<^verbatim>\<open>_get_soilgrids_data\<close>: no credential is involved; on any exception the result
  is the empty dictionary.\<close>

definition get_soilgrids_data :: "network \<Rightarrow> pyval \<Rightarrow> pyval \<Rightarrow> (py_error + dict) io" where
  "get_soilgrids_data net lat lon =
     (case soilgrids_try net lat lon of
        (reqs, Inl e) \<Rightarrow> (reqs, Inr [])
      | (reqs, Inr v) \<Rightarrow> (reqs, Inr v))"

text \<open>The dictionary display \<^verbatim>\<open>{**lulc_data, "ph": ..., ...}\<close> of
  \<^verbatim>\<open>get_soil_properties\<close>.\<close>

definition merge_soil :: "dict \<Rightarrow> dict \<Rightarrow> dict" where
  "merge_soil lulc_data soil_grid_data =
     AList.update ''potassium'' (dict_get_default soil_grid_data ''potassium'' (PStr ''medium''))
    (AList.update ''phosphorus'' (dict_get_default soil_grid_data ''phosphorus'' (PStr ''medium''))
    (AList.update ''nitrogen'' (dict_get_default soil_grid_data ''nitrogen'' (PStr ''medium''))
    (AList.update ''organic_carbon'' (dict_get_default soil_grid_data ''organic_carbon'' (PNum 1.5))
    (AList.update ''ph'' (dict_get_default soil_grid_data ''ph'' (PNum 6.5))
       lulc_data))))"

text \<open>
  \<^verbatim>\<open>get_soil_properties\<close>: the land-cover call, then the SoilGrids call, then the
  merge. A dictionary is truthy when it is not empty. An exception of either call
  would end in the handler, which returns the fallback soil properties.
\<close>

definition get_soil_properties ::
    "string \<Rightarrow> network \<Rightarrow> pyval \<Rightarrow> pyval \<Rightarrow> (py_error + dict) io" where
  "get_soil_properties lulc_token net lat lon =
     (case get_lulc_data lulc_token net lat lon of
        (reqs1, Inl e) \<Rightarrow> (reqs1, Inr get_fallback_soil_properties)
      | (reqs1, Inr lulc_data) \<Rightarrow>
     (case get_soilgrids_data net lat lon of
        (reqs2, Inl e) \<Rightarrow> (reqs1 @ reqs2, Inr get_fallback_soil_properties)
      | (reqs2, Inr soil_grid_data) \<Rightarrow>
          (reqs1 @ reqs2,
           if lulc_data \<noteq> [] \<and> soil_grid_data \<noteq> [] then Inr (merge_soil lulc_data soil_grid_data)
           else if lulc_data \<noteq> [] then Inr lulc_data
           else if soil_grid_data \<noteq> [] then Inr soil_grid_data
           else Inr get_fallback_soil_properties)))"

text \<open>The fields of the soil profile the recommendation response reports
  (\<^verbatim>\<open>soil_info\<close> in routes/recommendation\_routes.py).\<close>

definition required_soil_fields :: "string list" where
  "required_soil_fields =
     [''soil_type'', ''ph'', ''soil_moisture'', ''nitrogen'', ''phosphorus'', ''potassium'',
      ''organic_carbon'']"

definition populated :: "dict \<Rightarrow> string \<Rightarrow> bool" where
  "populated d k = (dict_get d k \<noteq> PNone)"

section \<open>The recommendation cache (routes/recommendation\_routes.py)\<close>

text \<open>
  The collection \<^verbatim>\<open>db.cache\<close> holds one document per key; the route reads it with
  \<^verbatim>\<open>find_one\<close> and writes it with \<^verbatim>\<open>update_one(..., upsert=True)\<close>. It is modelled as
  an ideal store, a map from the key to the document. Time is a number of
  microseconds; \<^verbatim>\<open>timedelta(hours=24)\<close> is the constant below. A document that lacks
  \<^verbatim>\<open>expires_at\<close> makes the comparison with \<^verbatim>\<open>datetime.utcnow()\<close> raise. The route
  reads the clock at four places: \<open>clock 0\<close> is the reading of the cache check,
  \<open>clock 1\<close> the timestamp of the response, \<open>clock 2\<close> and \<open>clock 3\<close> the two
  readings of the upsert.
\<close>

record cache_doc =
  data :: dict
  expires_at :: "int option"
  updated_at :: "int option"

type_synonym cache = "string \<Rightarrow> cache_doc option"

definition cache_key :: "string \<Rightarrow> string" where
  "cache_key uid = ''recommendations_'' @ uid"

definition ttl_24h :: int where
  "ttl_24h = 24 * 60 * 60 * 1000000"

text \<open>Step 2 of the route (the cache read): \<^verbatim>\<open>Some\<close> payload when the cached entry is
  served, \<^verbatim>\<open>None\<close> when the route goes on to compute.\<close>

definition cache_lookup :: "cache \<Rightarrow> string \<Rightarrow> int \<Rightarrow> py_error + dict option" where
  "cache_lookup db uid now =
     (case db (cache_key uid) of
        None \<Rightarrow> Inr None
      | Some cached \<Rightarrow>
          (case expires_at cached of
             None \<Rightarrow> Inl TypeError
           | Some t \<Rightarrow>
               if t > now then Inr (Some (AList.update ''from_cache'' (PBool True) (data cached)))
               else Inr None))"

text \<open>The document written by \<^verbatim>\<open>db.cache.update_one(..., upsert=True)\<close>, the last
  statement of the route before its \<^verbatim>\<open>return\<close>; the route below calls it in that
  place. The two calls of \<^verbatim>\<open>datetime.utcnow()\<close> in the document are the two times.\<close>

definition cache_store :: "cache \<Rightarrow> string \<Rightarrow> dict \<Rightarrow> int \<Rightarrow> int \<Rightarrow> cache" where
  "cache_store db uid response_data now1 now2 =
     db(cache_key uid \<mapsto>
          \<lparr>data = response_data, expires_at = Some (now1 + ttl_24h), updated_at = Some now2\<rparr>)"

text \<open>The route \<^verbatim>\<open>clear_recommendation_cache\<close>: \<^verbatim>\<open>delete_one\<close>.\<close>

definition cache_clear :: "cache \<Rightarrow> string \<Rightarrow> cache" where
  "cache_clear db uid = db(cache_key uid := None)"

section \<open>The recommender service (services/recommender.py)\<close>

definition get_current_season :: "nat \<Rightarrow> string" where
  "get_current_season month =
     (if month \<in> set [6, 7, 8, 9, 10] then ''Kharif''
      else if month \<in> set [11, 12, 1, 2, 3] then ''Rabi''
      else ''Summer'')"

definition get_market_demand :: "string \<Rightarrow> string" where
  "get_market_demand crop_name =
     (if crop_name \<in> set [''Wheat'', ''Rice'', ''Potato'', ''Tomato'', ''Onion''] then ''High''
      else if crop_name \<in> set [''Maize'', ''Cotton'', ''Sugarcane''] then ''Medium''
      else ''Low'')"

fun join :: "string \<Rightarrow> string list \<Rightarrow> string" where
  "join sep [] = []"
| "join sep [x] = x"
| "join sep (x # y # ys) = x @ sep @ join sep (y # ys)"

text \<open>The degree sign and the rupee sign of the two messages, as UTF-8 bytes.\<close>

definition degree_sign :: string where
  "degree_sign = [CHR 0xC2, CHR 0xB0]"

definition rupee_sign :: string where
  "rupee_sign = [CHR 0xE2, CHR 0x82, CHR 0xB9]"

definition generate_reasoning ::
    "py_builtins \<Rightarrow> string \<Rightarrow> crop \<Rightarrow> dict \<Rightarrow> dict \<Rightarrow> real \<Rightarrow> string \<Rightarrow> py_error + string" where
  "generate_reasoning B crop_name crop_data soil_data weather_data score current_season =
     (let reasons_season =
            (if current_season \<in> set (season crop_data)
             then [''Current '' @ current_season @ '' season is ideal for '' @ crop_name]
             else [])
      in
      (case (if truthy (dict_get soil_data ''ph'') then
               (case as_number (dict_get soil_data ''ph'') of
                  Inl e \<Rightarrow> Inl e
                | Inr ph \<Rightarrow>
                    Inr [if fst (ph_range crop_data) \<le> ph \<and> ph \<le> snd (ph_range crop_data)
                         then ''Soil pH ('' @ format_1f B ph @ '') is optimal''
                         else ''Soil pH ('' @ format_1f B ph @ '') may need adjustment''])
             else Inr []) of
         Inl e \<Rightarrow> Inl e
       | Inr reasons_ph \<Rightarrow>
      (case (if truthy (dict_get weather_data ''temperature'') then
               (case as_number (dict_get weather_data ''temperature'') of
                  Inl e \<Rightarrow> Inl e
                | Inr temp \<Rightarrow>
                    Inr (if fst (temp_range crop_data) \<le> temp \<and> temp \<le> snd (temp_range crop_data)
                         then [''Temperature ('' @ str_of B (dict_get weather_data ''temperature'')
                                 @ degree_sign @ ''C) is favorable'']
                         else []))
             else Inr []) of
         Inl e \<Rightarrow> Inl e
       | Inr reasons_temp \<Rightarrow>
           Inr (join ''. ''
                  (reasons_season @ reasons_ph @ reasons_temp @
                   [water crop_data @ '' water requirement'',
                    ''Expected profit: '' @ rupee_sign
                      @ format_thousands B (profit_per_hectare crop_data) @ ''/hectare''])
                @ ''.''))))"

text \<open>
  The response model \<^verbatim>\<open>CropRecommendation\<close> of models/recommendation.py, a pydantic
  model: seven fields have no default and are required, two are optional, and a
  keyword that is not a field is ignored. The constructor raises
  \<^verbatim>\<open>ValidationError\<close> when a required field is missing. (The validation of the
  field types, which comes with it, is not modelled: the one call of this repository
  fails on the missing fields.)
\<close>

definition CropRecommendation_required :: "string list" where
  "CropRecommendation_required =
     [''crop_name'', ''suitability_score'', ''expected_yield'', ''profit_margin'',
      ''water_requirement'', ''season'', ''reasons'']"

definition CropRecommendation_optional :: "(string \<times> pyval) list" where
  "CropRecommendation_optional = [(''crop_name_local'', PNone), (''warnings'', PList [])]"

definition CropRecommendation_init :: "dict \<Rightarrow> py_error + dict" where
  "CropRecommendation_init kwargs =
     (if list_all (\<lambda>f. map_of kwargs f \<noteq> None) CropRecommendation_required
      then Inr (map (\<lambda>f. (f, dict_get kwargs f)) CropRecommendation_required
                @ map (\<lambda>fd. (fst fd, dict_get_default kwargs (fst fd) (snd fd)))
                    CropRecommendation_optional)
      else Inl ValidationError)"

text \<open>The keyword arguments \<^verbatim>\<open>recommend_crops\<close> passes to the constructor.\<close>

definition recommendation_kwargs ::
    "py_builtins \<Rightarrow> string \<Rightarrow> crop \<Rightarrow> real \<Rightarrow> string \<Rightarrow> dict" where
  "recommendation_kwargs B crop_name crop_data score reasoning =
     [(''crop_name'', PStr crop_name),
      (''confidence_score'', PNum (round2 B score)),
      (''expected_yield'', PNum (yield_per_hectare crop_data)),
      (''estimated_profit'', PNum (real (profit_per_hectare crop_data))),
      (''sustainability_score'', PNum (sustainability crop_data)),
      (''water_requirement'', PStr (water crop_data)),
      (''duration_days'', PNum (real (duration crop_data))),
      (''market_demand'', PStr (get_market_demand crop_name)),
      (''reasoning'', PStr reasoning)]"

text \<open>
  The loop of \<^verbatim>\<open>recommend_crops\<close> over the catalogue, with the list
  \<^verbatim>\<open>recommendations\<close> it appends to. The constructor is a parameter, so that the
  loop can also be read with a constructor that accepts the keywords it is given.
\<close>

fun recommend_loop ::
    "(dict \<Rightarrow> py_error + dict) \<Rightarrow> py_builtins \<Rightarrow> dict \<Rightarrow> dict \<Rightarrow> string \<Rightarrow>
     (string \<times> crop) list \<Rightarrow> dict list \<Rightarrow> py_error + dict list" where
  "recommend_loop ctor B soil_data weather_data current_season [] recommendations =
     Inr recommendations"
| "recommend_loop ctor B soil_data weather_data current_season (item # items) recommendations =
     (case calculate_crop_score (snd item) soil_data weather_data current_season of
        Inl e \<Rightarrow> Inl e
      | Inr score \<Rightarrow>
          if score \<ge> 0.5 then
            (case generate_reasoning B (fst item) (snd item) soil_data weather_data score
                    current_season of
               Inl e \<Rightarrow> Inl e
             | Inr reasoning \<Rightarrow>
            (case ctor (recommendation_kwargs B (fst item) (snd item) score reasoning) of
               Inl e \<Rightarrow> Inl e
             | Inr recommendation \<Rightarrow>
                 recommend_loop ctor B soil_data weather_data current_season items
                   (recommendations @ [recommendation])))
          else recommend_loop ctor B soil_data weather_data current_season items recommendations)"

text \<open>The attribute \<^verbatim>\<open>x.confidence_score\<close>, the sort key: an object without the
  attribute raises \<^verbatim>\<open>AttributeError\<close>.\<close>

definition confidence_score :: "dict \<Rightarrow> real option" where
  "confidence_score x = (case map_of x ''confidence_score'' of Some (PNum k) \<Rightarrow> Some k | _ \<Rightarrow> None)"

text \<open>
  \<^verbatim>\<open>recommendations.sort(key=..., reverse=True)\<close>: the keys are computed first, for
  every element; the sort is stable, also when reversed, so elements with equal keys
  keep their order.
\<close>

definition sort_by_confidence :: "dict list \<Rightarrow> py_error + dict list" where
  "sort_by_confidence recommendations =
     (case those (map confidence_score recommendations) of
        None \<Rightarrow> Inl AttributeError
      | Some keys \<Rightarrow> Inr (map snd (sort_key (\<lambda>p. - fst p) (zip keys recommendations))))"

definition recommend_crops_with ::
    "(dict \<Rightarrow> py_error + dict) \<Rightarrow> py_builtins \<Rightarrow> dict \<Rightarrow> dict \<Rightarrow> string option \<Rightarrow> nat \<Rightarrow>
     py_error + dict list" where
  "recommend_crops_with ctor B soil_data weather_data season_arg month =
     (let current_season =
            (case season_arg of
               None \<Rightarrow> get_current_season month
             | Some s \<Rightarrow> if s = [] then get_current_season month else s)
      in
      (case recommend_loop ctor B soil_data weather_data current_season crop_database [] of
         Inl e \<Rightarrow> Inl e
       | Inr recommendations \<Rightarrow>
           (case sort_by_confidence recommendations of
              Inl e \<Rightarrow> Inl e
            | Inr sorted_recs \<Rightarrow> Inr (take 5 sorted_recs))))"

text \<open>\<^verbatim>\<open>recommend_crops\<close> as the repository runs it, with the month
  \<^verbatim>\<open>datetime.now().month\<close> as an argument.\<close>

definition recommend_crops ::
    "py_builtins \<Rightarrow> dict \<Rightarrow> dict \<Rightarrow> string option \<Rightarrow> nat \<Rightarrow> py_error + dict list" where
  "recommend_crops = recommend_crops_with CropRecommendation_init"

section \<open>The recommendation route (routes/recommendation\_routes.py)\<close>

datatype http_exception = HTTP_400 | HTTP_403 | HTTP_404 | HTTP_500 | HTTP_503

text \<open>The attributes of \<^verbatim>\<open>CropRecommenderService\<close>.\<close>

definition CropRecommenderService_attributes :: "string list" where
  "CropRecommenderService_attributes =
     [''crop_database'', ''get_current_season'', ''calculate_crop_score'', ''generate_reasoning'',
      ''get_market_demand'', ''recommend_crops'']"

text \<open>
  Step 6 of the route calls \<^verbatim>\<open>recommender_service.get_recommendations(soil_info=...,
  prev_crops=..., user_language=..., top_n=top_n)\<close>, and step 7 calls
  \<^verbatim>\<open>recommender_service.get_market_insights()\<close>. The result of each is that of the
  attribute lookup: the class defines no method of either name, and there is no body
  to run.
\<close>

definition service_get_recommendations ::
    "dict \<Rightarrow> pyval list \<Rightarrow> pyval \<Rightarrow> nat \<Rightarrow> py_error + dict list" where
  "service_get_recommendations soil_info prev_crops user_language top_n =
     (case getattr CropRecommenderService_attributes ''get_recommendations'' of
        Inl e \<Rightarrow> Inl e
      | Inr m \<Rightarrow> Inl AttributeError)"

definition service_get_market_insights :: "py_error + pyval" where
  "service_get_market_insights =
     (case getattr CropRecommenderService_attributes ''get_market_insights'' of
        Inl e \<Rightarrow> Inl e
      | Inr m \<Rightarrow> Inl AttributeError)"

text \<open>Step 5: \<^verbatim>\<open>[entry.get("crop_name") for entry in crop_history[-5:]]\<close>.\<close>

fun entries_crop_names :: "pyval list \<Rightarrow> py_error + pyval list" where
  "entries_crop_names [] = Inr []"
| "entries_crop_names (entry # es) =
     (case py_get entry ''crop_name'' PNone of
        Inl e \<Rightarrow> Inl e
      | Inr n \<Rightarrow> (case entries_crop_names es of Inl e \<Rightarrow> Inl e | Inr ns \<Rightarrow> Inr (n # ns)))"

definition prev_crops_of :: "pyval \<Rightarrow> py_error + pyval list" where
  "prev_crops_of crop_history =
     (case crop_history of
        PList es \<Rightarrow> entries_crop_names (drop (length es - 5) es)
      | PStr s \<Rightarrow> entries_crop_names (map (\<lambda>c. PStr [c]) (drop (length s - 5) s))
      | _ \<Rightarrow> Inl TypeError)"

text \<open>
  Step 8, the response: \<^verbatim>\<open>geocode["village"]\<close> and \<^verbatim>\<open>geocode["state"]\<close> raise
  \<^verbatim>\<open>KeyError\<close> on a missing key. (The validation of the fields by the response model
  is not modelled.)
\<close>

definition response_of ::
    "string \<Rightarrow> dict \<Rightarrow> dict \<Rightarrow> pyval \<Rightarrow> pyval \<Rightarrow> dict list \<Rightarrow> pyval \<Rightarrow> int \<Rightarrow> py_error + dict" where
  "response_of uid geocode soil_info lat lon recommendations market_insights timestamp =
     (case (map_of geocode ''village'', map_of geocode ''state'') of
        (Some village, Some state) \<Rightarrow>
          Inr [(''uid'', PStr uid),
               (''village'', village),
               (''state'', state),
               (''recommendations'', PList (map PDict recommendations)),
               (''soil_info'',
                  PDict [(''type'', dict_get soil_info ''soil_type''),
                         (''ph'', dict_get soil_info ''ph''),
                         (''moisture'', dict_get soil_info ''soil_moisture''),
                         (''nitrogen'', dict_get soil_info ''nitrogen''),
                         (''phosphorus'', dict_get soil_info ''phosphorus''),
                         (''potassium'', dict_get soil_info ''potassium''),
                         (''organic_carbon'', dict_get soil_info ''organic_carbon''),
                         (''coordinates'', PDict [(''lat'', lat), (''lon'', lon)])]),
               (''weather_info'', PNone),
               (''market_insights'', market_insights),
               (''timestamp'', PNum (of_int timestamp))]
      | _ \<Rightarrow> Inl KeyError)"

text \<open>
  Steps 3 to 9, the computation after a cache miss, with the cache collection it
  leaves. Every exception that is not an \<^verbatim>\<open>HTTPException\<close> is turned into status 500
  by the handler at the end of the route. The village and the state are strings in
  the user model; a truthy value of another type has no method \<^verbatim>\<open>lower\<close>. The
  upsert of step 9 is the last statement: it runs only when steps 6, 7 and 8 have
  returned.
\<close>

definition compute_fresh ::
    "py_builtins \<Rightarrow> string \<Rightarrow> string \<Rightarrow> network \<Rightarrow> (nat \<Rightarrow> int) \<Rightarrow> cache \<Rightarrow> string \<Rightarrow>
     dict \<Rightarrow> nat \<Rightarrow> (http_exception + dict) \<times> cache" where
  "compute_fresh B geocode_token lulc_token net clock db uid user top_n =
     (case (dict_get user ''village'', dict_get user ''state'') of
        (PStr village, PStr state) \<Rightarrow>
          (case snd (get_village_geocode B geocode_token net village state) of
             Inl e \<Rightarrow> (Inl HTTP_500, db)
           | Inr geocode \<Rightarrow>
               if geocode = [] then (Inl HTTP_503, db)
               else
                 (case (map_of geocode ''lat'', map_of geocode ''lon'') of
                    (Some lat, Some lon) \<Rightarrow>
                      (case snd (get_soil_properties lulc_token net lat lon) of
                         Inl e \<Rightarrow> (Inl HTTP_500, db)
                       | Inr soil_info \<Rightarrow>
                           if soil_info = [] then (Inl HTTP_503, db)
                           else
                             (case prev_crops_of (dict_get_default user ''crop_history'' (PList [])) of
                                Inl e \<Rightarrow> (Inl HTTP_500, db)
                              | Inr prev_crops \<Rightarrow>
                             (case service_get_recommendations soil_info prev_crops
                                     (dict_get_default user ''language'' (PStr ''en'')) top_n of
                                Inl e \<Rightarrow> (Inl HTTP_500, db)
                              | Inr recommendations \<Rightarrow>
                             (case service_get_market_insights of
                                Inl e \<Rightarrow> (Inl HTTP_500, db)
                              | Inr market_insights \<Rightarrow>
                             (case response_of uid geocode soil_info lat lon recommendations
                                     market_insights (clock 1) of
                                Inl e \<Rightarrow> (Inl HTTP_500, db)
                              | Inr response_data \<Rightarrow>
                                  (Inr response_data,
                                   cache_store db uid response_data (clock 2) (clock 3)))))))
                  | _ \<Rightarrow> (Inl HTTP_500, db)))
      | _ \<Rightarrow> (Inl HTTP_500, db))"

text \<open>The route \<^verbatim>\<open>GET /recommendations/{uid}\<close>, with the cache collection it leaves.
  \<^verbatim>\<open>current_uid\<close> is the verified identity, \<^verbatim>\<open>users\<close> the profile collection.\<close>

definition get_recommendations ::
    "py_builtins \<Rightarrow> string \<Rightarrow> string \<Rightarrow> network \<Rightarrow> (string \<Rightarrow> dict option) \<Rightarrow> cache \<Rightarrow>
     (nat \<Rightarrow> int) \<Rightarrow> string \<Rightarrow> bool \<Rightarrow> nat \<Rightarrow> string \<Rightarrow> (http_exception + dict) \<times> cache" where
  "get_recommendations B geocode_token lulc_token net users db clock uid force_refresh top_n
       current_uid =
     (if current_uid \<noteq> uid then (Inl HTTP_403, db)
      else
        (case users uid of
           None \<Rightarrow> (Inl HTTP_404, db)
         | Some user \<Rightarrow>
             if truthy (dict_get user ''village'') \<and> truthy (dict_get user ''state'') then
               (case (if force_refresh then Inr None else cache_lookup db uid (clock 0)) of
                  Inl e \<Rightarrow> (Inl HTTP_500, db)
                | Inr (Some cached_data) \<Rightarrow> (Inr cached_data, db)
                | Inr None \<Rightarrow>
                    compute_fresh B geocode_token lulc_token net clock db uid user top_n)
             else (Inl HTTP_400, db)))"

text \<open>The route \<^verbatim>\<open>DELETE /recommendations/{uid}/cache\<close> is \<open>cache_clear\<close> above, after
  the same check of the identity.\<close>

section \<open>Predicates used in the statements\<close>

text \<open>A request that fails before a JSON value is parsed.\<close>

definition is_failure :: "http_outcome \<Rightarrow> bool" where
  "is_failure r = (case r of Payload v \<Rightarrow> False | _ \<Rightarrow> True)"

text \<open>A response whose body is a JSON object, the only kind of body on which
  \<^verbatim>\<open>data.get(...)\<close> does not raise.\<close>

definition is_json_object :: "http_outcome \<Rightarrow> bool" where
  "is_json_object r = (case r of Payload (PDict d) \<Rightarrow> True | _ \<Rightarrow> False)"

text \<open>The test \<^verbatim>\<open>score >= 0.5\<close> of \<^verbatim>\<open>recommend_crops\<close> on one catalogue entry.\<close>

definition above_threshold :: "dict \<Rightarrow> dict \<Rightarrow> string \<Rightarrow> (string \<times> crop) \<Rightarrow> bool" where
  "above_threshold soil_data weather_data current_season item =
     (case calculate_crop_score (snd item) soil_data weather_data current_season of
        Inl e \<Rightarrow> False
      | Inr score \<Rightarrow> score \<ge> 0.5)"

text \<open>One choice of the built-ins, for closed examples. Its lowering is the identity:
  the examples that depend on it use states written in lowercase ASCII letters, which
  \<^verbatim>\<open>str.lower\<close> leaves as they are.\<close>

definition some_builtins :: py_builtins where
  "some_builtins =
     \<lparr>round2 = (\<lambda>x. x), format_1f = (\<lambda>x. []), format_thousands = (\<lambda>n. []),
      str_of = (\<lambda>v. []), float_of_str = (\<lambda>s. None), str_lower = (\<lambda>s. s)\<rparr>"


text \<open>A soil profile that has the pH only.\<close>

definition soil_ph65 :: dict where
  "soil_ph65 = [(''ph'', PNum 6.5)]"

text \<open>The nitrogen entry of a SoilGrids result is absent or one of the three tiers.\<close>

definition tier_ok :: "dict \<Rightarrow> bool" where
  "tier_ok d =
     (case map_of d ''nitrogen'' of
        None \<Rightarrow> True
      | Some v \<Rightarrow> v \<in> set [PStr ''high'', PStr ''medium'', PStr ''low''])"

section \<open>Properties of the suitability score\<close>

subsection \<open>Dictionary lookups\<close>

lemma dict_get_update_same: "dict_get (AList.update k v d) k = v"
  by (simp add: dict_get_def AList.update_conv')

lemma dict_get_update_other: "k' \<noteq> k \<Longrightarrow> dict_get (AList.update k v d) k' = dict_get d k'"
  by (simp add: dict_get_def AList.update_conv')

lemma dict_get_delete_same: "dict_get (AList.delete k d) k = PNone"
  by (simp add: dict_get_def AList.delete_conv')

lemma dict_get_delete_other: "k' \<noteq> k \<Longrightarrow> dict_get (AList.delete k d) k' = dict_get d k'"
  by (simp add: dict_get_def AList.delete_conv')

subsection \<open>Bounds of the factors\<close>

lemma ph_points_bounds: "ph_points c soil = Inr p \<Longrightarrow> 0 \<le> p \<and> p \<le> 30"
  by (auto simp: ph_points_def Let_def split: if_splits sum.splits)

lemma temp_points_bounds: "temp_points c w = Inr p \<Longrightarrow> 0 \<le> p \<and> p \<le> 25"
  by (auto simp: temp_points_def Let_def split: if_splits sum.splits)

lemma nitrogen_points_bounds: "nitrogen_points c soil = Inr p \<Longrightarrow> 0 \<le> p \<and> p \<le> 15"
  by (auto simp: nitrogen_points_def Let_def split: if_splits sum.splits)

lemma season_points_bounds: "0 \<le> season_points c s \<and> season_points c s \<le> 20"
  by (simp add: season_points_def)

lemma as_number_raises: "as_number v = Inl e \<Longrightarrow> e = TypeError"
  by (cases v) auto

lemma ph_points_raises: "ph_points c soil = Inl e \<Longrightarrow> e = TypeError"
  by (auto simp: ph_points_def Let_def split: if_splits sum.splits dest: as_number_raises)

lemma temp_points_raises: "temp_points c w = Inl e \<Longrightarrow> e = TypeError"
  by (auto simp: temp_points_def Let_def split: if_splits sum.splits dest: as_number_raises)

lemma nitrogen_points_raises: "nitrogen_points c soil = Inl e \<Longrightarrow> e = TypeError"
  by (auto simp: nitrogen_points_def Let_def split: if_splits sum.splits dest: as_number_raises)

lemma score_parts_Inr:
  assumes "score_parts c soil w s = Inr (sc, mx)"
  obtains p1 p2 p4 where "ph_points c soil = Inr p1" "temp_points c w = Inr p2"
    "nitrogen_points c soil = Inr p4"
    "sc = p1 + p2 + season_points c s + p4 + sustainability c" "mx = 100"
  using assms by (auto simp: score_parts_def split: sum.splits)

text \<open>The function returns a score whenever the three data are absent or numbers.\<close>

lemma calculate_crop_score_returns:
  assumes "dict_get soil ''ph'' \<in> insert PNone (range PNum)"
    and "dict_get w ''temperature'' \<in> insert PNone (range PNum)"
    and "dict_get soil ''nitrogen'' \<in> insert PNone (range PNum)"
  shows "\<exists>x. calculate_crop_score c soil w s = Inr x"
proof -
  have "\<exists>p. ph_points c soil = Inr p"
    using assms(1) by (auto simp: ph_points_def Let_def)
  then obtain p1 where p1: "ph_points c soil = Inr p1" by blast
  have "\<exists>p. temp_points c w = Inr p"
    using assms(2) by (auto simp: temp_points_def Let_def)
  then obtain p2 where p2: "temp_points c w = Inr p2" by blast
  have "\<exists>p. nitrogen_points c soil = Inr p"
    using assms(3) by (auto simp: nitrogen_points_def Let_def)
  then obtain p4 where p4: "nitrogen_points c soil = Inr p4" by blast
  have "calculate_crop_score c soil w s
      = Inr ((p1 + p2 + season_points c s + p4 + sustainability c) / 100)"
    by (simp add: calculate_crop_score_def score_parts_def p1 p2 p4)
  then show ?thesis by blast
qed

text \<open>Every entry of the catalogue satisfies the invariants of the data model.\<close>

lemma catalogue_invariants:
  "list_all (\<lambda>item. fst (ph_range (snd item)) \<le> snd (ph_range (snd item))
      \<and> 1 < fst (ph_range (snd item))
      \<and> fst (temp_range (snd item)) \<le> snd (temp_range (snd item))
      \<and> 0 < duration (snd item)
      \<and> 0 \<le> sustainability (snd item) \<and> sustainability (snd item) \<le> 10) crop_database"
  by (simp add: crop_database_def Rice_def Wheat_def Sugarcane_def Cotton_def Maize_def
      Groundnut_def Pulses_def Potato_def Tomato_def Onion_def)

subsection \<open>The pH factor\<close>

text \<open>
  Claim C5. For a crop with pH interval \<open>[lo, hi]\<close> (\<open>lo \<le> hi\<close>, the invariant of the
  catalogue) and a soil pH \<open>ph\<close>, the pH factor awards 30 points exactly when
  \<open>lo \<le> ph \<le> hi\<close>; 20 points when \<open>ph\<close> is outside the interval and within 0.5 of a
  bound; 10 points when it is within 1.0 of a bound and not within 0.5; and 0 points
  when \<open>ph\<close> is outside \<open>[lo - 1, hi + 1]\<close>. The pH is any real that the code grades
  (\<open>ph \<noteq> 0\<close>) or, for a crop whose interval starts above 1 as every interval of the
  catalogue does, the real 0 as well.
\<close>

theorem ph_factor_bands:
  assumes "dict_get soil ''ph'' = PNum ph" and "ph \<noteq> 0 \<or> 1 < lo"
    and "ph_range c = (lo, hi)" and "lo \<le> hi"
  shows "(ph_points c soil = Inr 30 \<longleftrightarrow> lo \<le> ph \<and> ph \<le> hi)
    \<and> (\<not> (lo \<le> ph \<and> ph \<le> hi) \<and> (\<bar>ph - lo\<bar> \<le> 0.5 \<or> \<bar>ph - hi\<bar> \<le> 0.5)
          \<longrightarrow> ph_points c soil = Inr 20)
    \<and> (\<not> (lo \<le> ph \<and> ph \<le> hi) \<and> \<not> (\<bar>ph - lo\<bar> \<le> 0.5 \<or> \<bar>ph - hi\<bar> \<le> 0.5)
          \<and> (\<bar>ph - lo\<bar> \<le> 1.0 \<or> \<bar>ph - hi\<bar> \<le> 1.0)
          \<longrightarrow> ph_points c soil = Inr 10)
    \<and> (ph < lo - 1.0 \<or> hi + 1.0 < ph \<longrightarrow> ph_points c soil = Inr 0)
    \<and> ph_points c soil =
        Inr (if lo \<le> ph \<and> ph \<le> hi then 30
             else if lo - 0.5 \<le> ph \<and> ph \<le> hi + 0.5 then 20
             else if lo - 1.0 \<le> ph \<and> ph \<le> hi + 1.0 then 10
             else 0)"
proof (cases "ph = 0")
  case False
  with assms show ?thesis by (auto simp: ph_points_def Let_def)
next
  case True
  with assms(2) have "1 < lo" by simp
  with True assms(1,4) show ?thesis by (auto simp: ph_points_def)
qed

theorem ph_factor_bands_witness:
  "ph_points Rice [(''ph'', PNum 6.8)] = Inr 30
   \<and> ph_points Rice [(''ph'', PNum 7.3)] = Inr 20
   \<and> ph_points Rice [(''ph'', PNum 4.6)] = Inr 10
   \<and> ph_points Rice [(''ph'', PNum 8.1)] = Inr 0
   \<and> ph_points Rice [(''ph'', PNum 0)] = Inr 0"
proof -
  have r: "ph_range Rice = (5.5, 7.0)" "(5.5::real) \<le> 7.0" by (simp_all add: Rice_def)
  have "ph_points Rice [(''ph'', PNum 6.8)] = Inr 30"
    using ph_factor_bands [of "[(''ph'', PNum 6.8)]" "6.8" "5.5" Rice "7.0"] r
    by (simp add: dict_get_def)
  moreover have "ph_points Rice [(''ph'', PNum 7.3)] = Inr 20"
    using ph_factor_bands [of "[(''ph'', PNum 7.3)]" "7.3" "5.5" Rice "7.0"] r
    by (simp add: dict_get_def)
  moreover have "ph_points Rice [(''ph'', PNum 4.6)] = Inr 10"
    using ph_factor_bands [of "[(''ph'', PNum 4.6)]" "4.6" "5.5" Rice "7.0"] r
    by (simp add: dict_get_def)
  moreover have "ph_points Rice [(''ph'', PNum 8.1)] = Inr 0"
    using ph_factor_bands [of "[(''ph'', PNum 8.1)]" "8.1" "5.5" Rice "7.0"] r
    by (simp add: dict_get_def)
  moreover have "ph_points Rice [(''ph'', PNum 0)] = Inr 0"
    using ph_factor_bands [of "[(''ph'', PNum 0)]" "0" "5.5" Rice "7.0"] r
    by (simp add: dict_get_def)
  ultimately show ?thesis by simp
qed

subsection \<open>Falsy data\<close>

text \<open>
  Claim C10. A soil pH or a temperature whose value is falsy (the number 0, and also
  \<^verbatim>\<open>None\<close>, \<^verbatim>\<open>False\<close> or an empty string) is treated as absent: the factor awards 0
  points, whatever the interval of the crop, and the score is the score of the same
  input with the key removed. Only truthy values are compared with the interval.
\<close>

theorem falsy_datum_skipped:
  assumes "\<not> truthy v"
  shows "ph_points c (AList.update ''ph'' v soil) = Inr 0
    \<and> temp_points c (AList.update ''temperature'' v w) = Inr 0
    \<and> calculate_crop_score c (AList.update ''ph'' v soil) w s
        = calculate_crop_score c (AList.delete ''ph'' soil) w s
    \<and> calculate_crop_score c soil (AList.update ''temperature'' v w) s
        = calculate_crop_score c soil (AList.delete ''temperature'' w) s"
proof -
  have ph0: "ph_points c (AList.update ''ph'' v soil) = Inr 0"
    using assms by (simp add: ph_points_def dict_get_update_same)
  have ph0': "ph_points c (AList.delete ''ph'' soil) = Inr 0"
    by (simp add: ph_points_def dict_get_delete_same)
  have n: "nitrogen_points c (AList.update ''ph'' v soil)
      = nitrogen_points c (AList.delete ''ph'' soil)"
    by (simp add: nitrogen_points_def dict_get_update_other dict_get_delete_other)
  have t0: "temp_points c (AList.update ''temperature'' v w) = Inr 0"
    using assms by (simp add: temp_points_def dict_get_update_same)
  have t0': "temp_points c (AList.delete ''temperature'' w) = Inr 0"
    by (simp add: temp_points_def dict_get_delete_same)
  have "calculate_crop_score c (AList.update ''ph'' v soil) w s
        = calculate_crop_score c (AList.delete ''ph'' soil) w s"
    unfolding calculate_crop_score_def score_parts_def ph0 ph0' n by (rule refl)
  moreover have "calculate_crop_score c soil (AList.update ''temperature'' v w) s
        = calculate_crop_score c soil (AList.delete ''temperature'' w) s"
    unfolding calculate_crop_score_def score_parts_def t0 t0' by (rule refl)
  ultimately show ?thesis using ph0 t0 by simp
qed

text \<open>A crop whose intervals contain 0: the value 0 earns nothing, the value 1 the
  full 25 points.\<close>

theorem falsy_datum_skipped_witness:
  "\<not> truthy (PNum 0)
   \<and> fst (ph_range (Rice\<lparr>ph_range := (0, 7)\<rparr>)) \<le> 0
   \<and> ph_points (Rice\<lparr>ph_range := (0, 7)\<rparr>) [(''ph'', PNum 0)] = Inr 0
   \<and> temp_points (Rice\<lparr>temp_range := (-5, 10)\<rparr>) [(''temperature'', PNum 0)] = Inr 0
   \<and> temp_points (Rice\<lparr>temp_range := (-5, 10)\<rparr>) [(''temperature'', PNum 1)] = Inr 25"
proof -
  have f: "\<not> truthy (PNum 0)" by simp
  from falsy_datum_skipped [OF f, of "Rice\<lparr>ph_range := (0, 7)\<rparr>" "[]" "[]"]
  have "ph_points (Rice\<lparr>ph_range := (0, 7)\<rparr>) [(''ph'', PNum 0)] = Inr 0" by simp
  moreover from falsy_datum_skipped [OF f, of "Rice\<lparr>temp_range := (-5, 10)\<rparr>" "[]" "[]"]
  have "temp_points (Rice\<lparr>temp_range := (-5, 10)\<rparr>) [(''temperature'', PNum 0)] = Inr 0"
    by simp
  moreover have
    "temp_points (Rice\<lparr>temp_range := (-5, 10)\<rparr>) [(''temperature'', PNum 1)] = Inr 25"
    by (simp add: temp_points_def dict_get_def)
  ultimately show ?thesis by simp
qed

subsection \<open>The denominator\<close>

lemma score_parts_Rice_no_data: "score_parts Rice [] [] ''Kharif'' = Inr (27, 100)"
  by (simp add: score_parts_def ph_points_def temp_points_def nitrogen_points_def
      season_points_def dict_get_def Rice_def)

text \<open>A soil and a weather input on which all four graded factors of Rice award
  points: 30 for the pH, 15 for the temperature, 20 for the season, 10 for the
  nitrogen.\<close>

lemma factors_Rice_with_data:
  "ph_points Rice [(''ph'', PNum 6.8), (''nitrogen'', PNum 100)] = Inr 30"
  "temp_points Rice [(''temperature'', PNum 37)] = Inr 15"
  "season_points Rice ''Kharif'' = 20"
  "nitrogen_points Rice [(''ph'', PNum 6.8), (''nitrogen'', PNum 100)] = Inr 10"
  by (simp_all add: ph_points_def temp_points_def nitrogen_points_def season_points_def
      dict_get_def Rice_def)

text \<open>
  Claim C1, as amended. The function returns exactly when its three data-dependent
  factors evaluate, and then the points awarded are the sum of what the pH factor, the
  temperature factor, the season factor and the nitrogen factor award plus the
  sustainability rating, and the points possible are 100: \<^verbatim>\<open>max_score\<close> is 100 for
  every input, so the score is the sum of the points awarded divided by 100. A factor
  whose datum is unknown (absent or falsy) awards 0 points, and its weight still
  counts as possible. When the soil pH is unknown, the 30 points of the pH factor stay
  in the denominator.
\<close>

theorem score_denominator_is_100:
  "(score_parts c soil w s = Inr (sc, mx) \<longleftrightarrow>
      (\<exists>p_ph p_temp p_n.
          ph_points c soil = Inr p_ph \<and> temp_points c w = Inr p_temp
          \<and> nitrogen_points c soil = Inr p_n
          \<and> sc = p_ph + p_temp + season_points c s + p_n + sustainability c
          \<and> mx = 100))
   \<and> (score_parts c soil w s = Inr (sc, mx) \<longrightarrow>
        mx = 100 \<and> calculate_crop_score c soil w s = Inr (sc / 100))
   \<and> (ph_points c soil = Inr p_ph \<and> temp_points c w = Inr p_temp
        \<and> nitrogen_points c soil = Inr p_n \<longrightarrow>
        calculate_crop_score c soil w s
          = Inr ((p_ph + p_temp + season_points c s + p_n + sustainability c) / 100))
   \<and> (truthy (dict_get soil ''ph'') \<or> ph_points c soil = Inr 0)
   \<and> (truthy (dict_get w ''temperature'') \<or> temp_points c w = Inr 0)
   \<and> (truthy (dict_get soil ''nitrogen'') \<or> nitrogen_points c soil = Inr 0)"
proof -
  have parts: "score_parts c soil w s = Inr (sc, mx) \<longleftrightarrow>
      (\<exists>p_ph p_temp p_n.
          ph_points c soil = Inr p_ph \<and> temp_points c w = Inr p_temp
          \<and> nitrogen_points c soil = Inr p_n
          \<and> sc = p_ph + p_temp + season_points c s + p_n + sustainability c
          \<and> mx = 100)"
    by (auto simp: score_parts_def split: sum.splits)
  have ret: "mx = 100 \<and> calculate_crop_score c soil w s = Inr (sc / 100)"
    if "score_parts c soil w s = Inr (sc, mx)"
  proof -
    from that have "mx = 100" by (rule score_parts_Inr)
    with that show ?thesis by (simp add: calculate_crop_score_def)
  qed
  have sum: "calculate_crop_score c soil w s
          = Inr ((p_ph + p_temp + season_points c s + p_n + sustainability c) / 100)"
    if "ph_points c soil = Inr p_ph" "temp_points c w = Inr p_temp"
      "nitrogen_points c soil = Inr p_n"
    using that by (simp add: calculate_crop_score_def score_parts_def)
  have "truthy (dict_get soil ''ph'') \<or> ph_points c soil = Inr 0"
    by (simp add: ph_points_def)
  moreover have "truthy (dict_get w ''temperature'') \<or> temp_points c w = Inr 0"
    by (simp add: temp_points_def)
  moreover have "truthy (dict_get soil ''nitrogen'') \<or> nitrogen_points c soil = Inr 0"
    by (simp add: nitrogen_points_def)
  ultimately show ?thesis using parts ret sum by blast
qed

text \<open>Rice in the Kharif season: with pH 6.8, 37 degrees and nitrogen 100 the factors
  award 30, 15, 20 and 10 points and the rating adds 7, which makes 82 of 100; with
  no data at all only the season and the rating count, which makes 27 of 100.\<close>

theorem score_denominator_is_100_witness:
  "score_parts Rice [(''ph'', PNum 6.8), (''nitrogen'', PNum 100)] [(''temperature'', PNum 37)]
      ''Kharif'' = Inr (82, 100)
   \<and> calculate_crop_score Rice [(''ph'', PNum 6.8), (''nitrogen'', PNum 100)]
      [(''temperature'', PNum 37)] ''Kharif'' = Inr (82 / 100)
   \<and> score_parts Rice [] [] ''Kharif'' = Inr (27, 100)
   \<and> calculate_crop_score Rice [] [] ''Kharif'' = Inr (27 / 100)
   \<and> ph_points Rice [] = Inr 0"
proof -
  let ?soil = "[(''ph'', PNum 6.8), (''nitrogen'', PNum 100)]"
  let ?w = "[(''temperature'', PNum 37)]"
  note full = score_denominator_is_100 [of Rice ?soil ?w "''Kharif''" 82 100 30 15 10]
  have rating: "sustainability Rice = 7" by (simp add: Rice_def)
  from full factors_Rice_with_data rating
  have a: "score_parts Rice ?soil ?w ''Kharif'' = Inr (82, 100)" by simp
  from full a
  have b: "calculate_crop_score Rice ?soil ?w ''Kharif'' = Inr (82 / 100)" by blast
  note none = score_denominator_is_100 [of Rice "[]" "[]" "''Kharif''" 27 100 0 0 0]
  from none score_parts_Rice_no_data
  have c: "calculate_crop_score Rice [] [] ''Kharif'' = Inr (27 / 100)" by blast
  from none have d: "ph_points Rice [] = Inr 0" by (simp add: dict_get_def)
  from a b c d score_parts_Rice_no_data show ?thesis by simp
qed

text \<open>
  The claim as the specification states it fails for Rice in the Kharif season with
  no soil and no weather data: 27 points are awarded, the data-bearing factors
  (season and sustainability) make 30 points possible, and the function returns
  27/100, not 27/30.
\<close>

theorem score_denominator_counterexample:
  "calculate_crop_score Rice [] [] ''Kharif'' \<noteq> spec_score Rice [] [] ''Kharif''"
  by (simp add: calculate_crop_score_def spec_score_def score_parts_Rice_no_data
      spec_points_possible_def dict_get_def)

subsection \<open>The range of the score\<close>

text \<open>
  Claim C7. For every crop whose sustainability rating lies in \<open>[0, 10]\<close> (every crop
  of the catalogue does), and for every soil and weather input and every season, a
  score that the function returns lies in \<open>[0, 1]\<close>.
\<close>

theorem score_in_unit_interval:
  assumes "0 \<le> sustainability c" and "sustainability c \<le> 10"
    and "calculate_crop_score c soil w s = Inr x"
  shows "0 \<le> x \<and> x \<le> 1"
proof -
  from assms(3) obtain sc mx where parts: "score_parts c soil w s = Inr (sc, mx)"
    by (auto simp: calculate_crop_score_def split: sum.splits)
  from parts obtain p1 p2 p4 where
    p: "ph_points c soil = Inr p1" "temp_points c w = Inr p2" "nitrogen_points c soil = Inr p4"
    and sc: "sc = p1 + p2 + season_points c s + p4 + sustainability c" and mx: "mx = 100"
    by (rule score_parts_Inr)
  from assms(3) parts mx have x: "x = sc / 100"
    by (simp add: calculate_crop_score_def)
  have "0 \<le> sc \<and> sc \<le> 100"
    using ph_points_bounds [OF p(1)] temp_points_bounds [OF p(2)]
      nitrogen_points_bounds [OF p(3)] season_points_bounds [of c s] assms(1,2) sc
    by linarith
  with x show ?thesis by simp
qed

theorem score_in_unit_interval_witness:
  "calculate_crop_score Wheat [(''ph'', PNum 6.8)] [(''temperature'', PNum 31)] ''Rabi''
     = Inr (585 / 1000)
   \<and> (0::real) \<le> 585 / 1000 \<and> (585::real) / 1000 \<le> 1"
proof -
  have v: "calculate_crop_score Wheat [(''ph'', PNum 6.8)] [(''temperature'', PNum 31)] ''Rabi''
      = Inr (585 / 1000)"
    by (simp add: calculate_crop_score_def score_parts_def ph_points_def temp_points_def
        nitrogen_points_def season_points_def dict_get_def Wheat_def)
  have "0 \<le> sustainability Wheat" "sustainability Wheat \<le> 10" by (simp_all add: Wheat_def)
  from score_in_unit_interval [OF this v] v show ?thesis by simp
qed

subsection \<open>The nitrogen factor\<close>

text \<open>For a numeric nitrogen level the factor follows the 100\% / 80\% / 60\% rule.\<close>

lemma nitrogen_points_numeric:
  "dict_get soil ''nitrogen'' = PNum n \<Longrightarrow> n \<noteq> 0 \<Longrightarrow>
   nitrogen_points c soil =
     Inr (if n \<ge> nitrogen c then 15 else if n \<ge> nitrogen c * 0.8 then 10
          else if n \<ge> nitrogen c * 0.6 then 5 else 0)"
  by (simp add: nitrogen_points_def Let_def)

text \<open>A nitrogen level that is a non-empty string makes the whole function raise.\<close>

lemma nitrogen_string_raises:
  assumes "dict_get soil ''nitrogen'' = PStr t" and "t \<noteq> []"
  shows "calculate_crop_score c soil w s = Inl TypeError"
proof -
  have n: "nitrogen_points c soil = Inl TypeError"
    using assms by (simp add: nitrogen_points_def)
  show ?thesis
  proof (cases "ph_points c soil")
    case (Inl e)
    then show ?thesis
      using ph_points_raises [OF Inl] by (simp add: calculate_crop_score_def score_parts_def)
  next
    case ph: (Inr p1)
    show ?thesis
    proof (cases "temp_points c w")
      case (Inl e)
      then show ?thesis
        using temp_points_raises [OF Inl] ph
        by (simp add: calculate_crop_score_def score_parts_def)
    next
      case (Inr p2)
      then show ?thesis
        using ph n by (simp add: calculate_crop_score_def score_parts_def)
    qed
  qed
qed

text \<open>
  Claim C6, at the profile \<^verbatim>\<open>_get_fallback_soil_properties()\<close>. The claim says that the
  nitrogen factor evaluates without an error on every profile of the adapter. The
  fallback profile carries the nitrogen level \<^verbatim>\<open>"medium"\<close>; the comparison
  \<^verbatim>\<open>nitrogen >= required\<close> of a string with a number raises \<^verbatim>\<open>TypeError\<close>, for every
  crop, weather input and season.
\<close>

theorem nitrogen_tier_raises:
  "calculate_crop_score c get_fallback_soil_properties w s = Inl TypeError"
  by (rule nitrogen_string_raises [where t = "''medium''"])
    (simp_all add: dict_get_def get_fallback_soil_properties_def)

section \<open>Properties of the data source adapter\<close>

subsection \<open>The fallback geocode\<close>

text \<open>
  Claim C8. The fallback geocode is a function of the village and the state alone
  (beside the lowering function of the language, the model has no other argument and
  no state); its coordinates depend on the lowercased state only. A state whose
  lowercased name is not a key of the table gets the coordinate (20.5937, 78.9629);
  a state whose lowercased name is a key gets the coordinate of the table; the
  village is returned as it was given and the district is \<^verbatim>\<open>"Unknown"\<close>. This holds
  for every lowering function, and so for \<^verbatim>\<open>str.lower\<close>.
\<close>

theorem fallback_geocode_table:
  "dict_get (get_fallback_geocode B village state) ''village'' = PStr village
   \<and> dict_get (get_fallback_geocode B village state) ''district'' = PStr ''Unknown''
   \<and> (map_of state_coords (str_lower B state) = None \<longrightarrow>
        get_fallback_geocode B village state =
          [(''lat'', PNum 20.5937), (''lon'', PNum 78.9629), (''village'', PStr village),
           (''district'', PStr ''Unknown''), (''state'', PStr state), (''fallback'', PBool True)])
   \<and> (map_of state_coords (str_lower B state) = Some (la, lo) \<longrightarrow>
        get_fallback_geocode B village state =
          [(''lat'', PNum la), (''lon'', PNum lo), (''village'', PStr village),
           (''district'', PStr ''Unknown''), (''state'', PStr state), (''fallback'', PBool True)])
   \<and> (str_lower B state = str_lower B state' \<longrightarrow>
        dict_get (get_fallback_geocode B village state) ''lat''
          = dict_get (get_fallback_geocode B village' state') ''lat''
        \<and> dict_get (get_fallback_geocode B village state) ''lon''
          = dict_get (get_fallback_geocode B village' state') ''lon'')"
  by (simp add: get_fallback_geocode_def dict_get_def Let_def)

theorem fallback_geocode_table_witness:
  "map_of state_coords (str_lower some_builtins ''atlantis'') = None
   \<and> get_fallback_geocode some_builtins ''Rampur'' ''atlantis'' =
          [(''lat'', PNum 20.5937), (''lon'', PNum 78.9629), (''village'', PStr ''Rampur''),
           (''district'', PStr ''Unknown''), (''state'', PStr ''atlantis''),
           (''fallback'', PBool True)]
   \<and> map_of state_coords (str_lower some_builtins ''punjab'') = Some (30.9010, 75.8573)
   \<and> get_fallback_geocode some_builtins ''Rampur'' ''punjab'' =
          [(''lat'', PNum 30.9010), (''lon'', PNum 75.8573), (''village'', PStr ''Rampur''),
           (''district'', PStr ''Unknown''), (''state'', PStr ''punjab''),
           (''fallback'', PBool True)]
   \<and> dict_get (get_fallback_geocode some_builtins ''Rampur'' ''punjab'') ''lat''
     = dict_get (get_fallback_geocode some_builtins ''Sultanpur'' ''punjab'') ''lat''"
proof -
  have n: "map_of state_coords (str_lower some_builtins ''atlantis'') = None"
    by (simp add: some_builtins_def state_coords_def)
  have p: "map_of state_coords (str_lower some_builtins ''punjab'') = Some (30.9010, 75.8573)"
    by (simp add: some_builtins_def state_coords_def)
  from fallback_geocode_table [of some_builtins "''Rampur''" "''atlantis''" 0 0 "''atlantis''"
      "''Rampur''"] n
  have a: "get_fallback_geocode some_builtins ''Rampur'' ''atlantis'' =
          [(''lat'', PNum 20.5937), (''lon'', PNum 78.9629), (''village'', PStr ''Rampur''),
           (''district'', PStr ''Unknown''), (''state'', PStr ''atlantis''),
           (''fallback'', PBool True)]"
    by simp
  note t = fallback_geocode_table [of some_builtins "''Rampur''" "''punjab''" "30.9010"
      "75.8573" "''punjab''" "''Sultanpur''"]
  from t p
  have b: "get_fallback_geocode some_builtins ''Rampur'' ''punjab'' =
          [(''lat'', PNum 30.9010), (''lon'', PNum 75.8573), (''village'', PStr ''Rampur''),
           (''district'', PStr ''Unknown''), (''state'', PStr ''punjab''),
           (''fallback'', PBool True)]"
    by simp
  from t
  have c: "dict_get (get_fallback_geocode some_builtins ''Rampur'' ''punjab'') ''lat''
     = dict_get (get_fallback_geocode some_builtins ''Sultanpur'' ''punjab'') ''lat''"
    by blast
  from n p a b c show ?thesis by simp
qed

subsection \<open>The operations never raise\<close>

lemma geocode_always_fallback:
  "get_village_geocode B gt net village state = ([], Inr (get_fallback_geocode B village state))"
  by (simp add: get_village_geocode_def geocode_try_def getattr_def BhuvanAPIService_attributes_def)

lemma lulc_no_token: "get_lulc_data [] net lat lon = ([], Inr (get_fallback_lulc lat lon))"
  by (simp add: get_lulc_data_def)

lemma lulc_not_object:
  "\<not> is_json_object (net (BASE_URL @ ''/lulc/query'')) \<Longrightarrow>
   snd (get_lulc_data lt net lat lon) = Inr (get_fallback_lulc lat lon)"
  by (auto simp: get_lulc_data_def lulc_try_def http_get_json_def is_json_object_def
      split: http_outcome.splits pyval.splits)

lemma lulc_returns: "\<exists>v. snd (get_lulc_data lt net lat lon) = Inr v \<and> v \<noteq> []"
  by (auto simp: get_lulc_data_def lulc_try_def get_fallback_lulc_def
      split: sum.splits pyval.splits)

lemma soilgrids_returns: "\<exists>v. snd (get_soilgrids_data net lat lon) = Inr v"
  by (auto simp: get_soilgrids_data_def split: prod.splits sum.splits)

lemma merge_soil_nonempty: "merge_soil a b \<noteq> []"
  by (simp add: merge_soil_def)

lemma soil_properties_returns:
  "\<exists>v. snd (get_soil_properties lt net lat lon) = Inr v \<and> v \<noteq> []"
  by (auto simp: get_soil_properties_def merge_soil_nonempty get_fallback_soil_properties_def
      split: prod.splits sum.splits)

text \<open>
  Claim C3, as amended. Each of the three operations returns a non-empty dictionary
  and raises no error, for every token, input and behaviour of the network. Without
  its token, the geocode operation and the land-cover operation return their fallback
  without a request; the soil-properties operation has no credential of its own and
  queries SoilGrids also when the land-cover token is absent. With a token, the
  geocode operation returns its fallback when the request fails, and the land-cover
  operation returns its fallback on a transport error, an HTTP error status, a body
  that is not JSON and a JSON value that is not an object. A land-cover body that is
  a JSON object, the empty object included, is not an error: the result is built
  field by field, with the defaults loamy, agricultural, 0.5, medium and 300, and has
  no fallback marker.
\<close>

theorem adapter_degrades_to_fallback:
  "(\<exists>v. snd (get_village_geocode B gt net village state) = Inr v \<and> v \<noteq> [])
   \<and> (\<exists>v. snd (get_lulc_data lt net lat lon) = Inr v \<and> v \<noteq> [])
   \<and> (\<exists>v. snd (get_soil_properties lt net lat lon) = Inr v \<and> v \<noteq> [])
   \<and> (gt = [] \<longrightarrow>
        get_village_geocode B gt net village state = ([], Inr (get_fallback_geocode B village state)))
   \<and> (lt = [] \<longrightarrow> get_lulc_data lt net lat lon = ([], Inr (get_fallback_lulc lat lon)))
   \<and> (lt = [] \<longrightarrow> fst (get_soil_properties lt net lat lon) = [SOILGRIDS_URL])
   \<and> (is_failure (net (BASE_URL @ ''/geocode'')) \<longrightarrow>
        snd (get_village_geocode B gt net village state) = Inr (get_fallback_geocode B village state))
   \<and> (\<not> is_json_object (net (BASE_URL @ ''/lulc/query'')) \<longrightarrow>
        snd (get_lulc_data lt net lat lon) = Inr (get_fallback_lulc lat lon))
   \<and> (lt \<noteq> [] \<and> net (BASE_URL @ ''/lulc/query'') = Payload (PDict d) \<longrightarrow>
        snd (get_lulc_data lt net lat lon) =
          Inr [(''soil_type'', dict_get_default d ''soil_type'' (PStr ''loamy'')),
               (''land_use'', dict_get_default d ''land_use'' (PStr ''agricultural'')),
               (''vegetation_index'', dict_get_default d ''ndvi'' (PNum 0.5)),
               (''soil_moisture'', dict_get_default d ''moisture'' (PStr ''medium'')),
               (''elevation'', dict_get_default d ''elevation'' (PNum 300))])"
proof -
  have g: "\<exists>v. snd (get_village_geocode B gt net village state) = Inr v \<and> v \<noteq> []"
    by (simp add: geocode_always_fallback get_fallback_geocode_def Let_def)
  have live: "snd (get_lulc_data lt net lat lon) =
          Inr [(''soil_type'', dict_get_default d ''soil_type'' (PStr ''loamy'')),
               (''land_use'', dict_get_default d ''land_use'' (PStr ''agricultural'')),
               (''vegetation_index'', dict_get_default d ''ndvi'' (PNum 0.5)),
               (''soil_moisture'', dict_get_default d ''moisture'' (PStr ''medium'')),
               (''elevation'', dict_get_default d ''elevation'' (PNum 300))]"
    if "lt \<noteq> []" "net (BASE_URL @ ''/lulc/query'') = Payload (PDict d)"
    using that by (simp add: get_lulc_data_def lulc_try_def http_get_json_def)
  have sg: "fst (get_soil_properties [] net lat lon) = [SOILGRIDS_URL]"
    by (simp add: get_soil_properties_def lulc_no_token get_soilgrids_data_def soilgrids_try_def
        split: prod.splits sum.splits)
  show ?thesis
    using g lulc_returns [of lt net lat lon] soil_properties_returns [of lt net lat lon]
      lulc_no_token [of net lat lon] lulc_not_object [of net lt lat lon] live sg
    by (simp add: geocode_always_fallback)
qed

theorem adapter_degrades_to_fallback_witness:
  "get_village_geocode some_builtins [] (\<lambda>url. TransportError) ''Rampur'' ''Punjab''
     = ([], Inr (get_fallback_geocode some_builtins ''Rampur'' ''Punjab''))
   \<and> snd (get_village_geocode some_builtins ''token'' (\<lambda>url. TransportError) ''Rampur'' ''Punjab'')
     = Inr (get_fallback_geocode some_builtins ''Rampur'' ''Punjab'')
   \<and> get_lulc_data [] (\<lambda>url. TransportError) (PNum 30.901) (PNum 75.8573)
     = ([], Inr (get_fallback_lulc (PNum 30.901) (PNum 75.8573)))
   \<and> fst (get_soil_properties [] (\<lambda>url. TransportError) (PNum 30.901) (PNum 75.8573))
     = [SOILGRIDS_URL]
   \<and> snd (get_lulc_data ''token'' (\<lambda>url. StatusError) (PNum 30.901) (PNum 75.8573))
     = Inr (get_fallback_lulc (PNum 30.901) (PNum 75.8573))
   \<and> snd (get_lulc_data ''token'' (\<lambda>url. Payload (PDict [(''ndvi'', PNum 0.7)]))
           (PNum 30.901) (PNum 75.8573))
     = Inr [(''soil_type'', PStr ''loamy''), (''land_use'', PStr ''agricultural''),
            (''vegetation_index'', PNum 0.7), (''soil_moisture'', PStr ''medium''),
            (''elevation'', PNum 300)]"
proof -
  have a: "get_village_geocode some_builtins [] (\<lambda>url. TransportError) ''Rampur'' ''Punjab''
     = ([], Inr (get_fallback_geocode some_builtins ''Rampur'' ''Punjab''))"
   and b: "get_lulc_data [] (\<lambda>url. TransportError) (PNum 30.901) (PNum 75.8573)
     = ([], Inr (get_fallback_lulc (PNum 30.901) (PNum 75.8573)))"
   and b': "fst (get_soil_properties [] (\<lambda>url. TransportError) (PNum 30.901) (PNum 75.8573))
     = [SOILGRIDS_URL]"
    using adapter_degrades_to_fallback [of some_builtins "[]" "\<lambda>url. TransportError"
        "''Rampur''" "''Punjab''" "[]" "PNum 30.901" "PNum 75.8573" "[]"]
    by simp_all
  have a': "snd (get_village_geocode some_builtins ''token'' (\<lambda>url. TransportError)
              ''Rampur'' ''Punjab'')
     = Inr (get_fallback_geocode some_builtins ''Rampur'' ''Punjab'')"
    using adapter_degrades_to_fallback [of some_builtins "''token''" "\<lambda>url. TransportError"
        "''Rampur''" "''Punjab''" "[]" "PNum 30.901" "PNum 75.8573" "[]"]
    by (simp add: is_failure_def)
  have c: "snd (get_lulc_data ''token'' (\<lambda>url. StatusError) (PNum 30.901) (PNum 75.8573))
     = Inr (get_fallback_lulc (PNum 30.901) (PNum 75.8573))"
    using adapter_degrades_to_fallback [of some_builtins "[]" "\<lambda>url. StatusError"
        "''Rampur''" "''Punjab''" "''token''" "PNum 30.901" "PNum 75.8573" "[]"]
    by (simp add: is_json_object_def)
  have d: "snd (get_lulc_data ''token'' (\<lambda>url. Payload (PDict [(''ndvi'', PNum 0.7)]))
           (PNum 30.901) (PNum 75.8573))
     = Inr [(''soil_type'', PStr ''loamy''), (''land_use'', PStr ''agricultural''),
            (''vegetation_index'', PNum 0.7), (''soil_moisture'', PStr ''medium''),
            (''elevation'', PNum 300)]"
    using adapter_degrades_to_fallback [of some_builtins "[]"
        "\<lambda>url. Payload (PDict [(''ndvi'', PNum 0.7)])" "''Rampur''" "''Punjab''" "''token''"
        "PNum 30.901" "PNum 75.8573" "[(''ndvi'', PNum 0.7)]"]
    by (simp add: dict_get_default_def)
  from a a' b b' c d show ?thesis by simp
qed

text \<open>
  The claim as stated fails for the land-cover operation with a token and the empty
  JSON object as the body: the result has the vegetation index 0.5 and no fallback
  marker, where the fallback has 0.6 and the marker.
\<close>

theorem lulc_empty_object_counterexample:
  "snd (get_lulc_data ''token'' (\<lambda>url. Payload (PDict [])) (PNum 0) (PNum 0))
     \<noteq> Inr (get_fallback_lulc (PNum 0) (PNum 0))"
  by (simp add: get_lulc_data_def lulc_try_def http_get_json_def get_fallback_lulc_def
      dict_get_default_def)

subsection \<open>The aggregated soil profile\<close>

text \<open>The nitrogen entry of every SoilGrids result is a tier string.\<close>

lemma soilgrids_layers_tier:
  "soilgrids_layers ls result = Inr r \<Longrightarrow> tier_ok result \<Longrightarrow> tier_ok r"
proof (induction ls arbitrary: result)
  case Nil
  then show ?case by simp
next
  case (Cons layer ls)
  then show ?case
    by (auto simp: tier_ok_def AList.update_conv' split: sum.splits if_splits)
qed

lemma soilgrids_data_tier:
  assumes "snd (get_soilgrids_data net lat lon) = Inr sg"
  shows "tier_ok sg"
proof (cases "snd (soilgrids_try net lat lon)")
  case (Inl e)
  with assms have "sg = []"
    by (auto simp: get_soilgrids_data_def split: prod.splits)
  then show ?thesis by (simp add: tier_ok_def)
next
  case (Inr r)
  with assms have sg: "sg = r"
    by (auto simp: get_soilgrids_data_def split: prod.splits)
  from Inr obtain ls where "soilgrids_layers ls [] = Inr r"
    by (auto simp: soilgrids_try_def split: sum.splits)
  from soilgrids_layers_tier [OF this] sg show ?thesis by (simp add: tier_ok_def)
qed

lemma lulc_data_no_nitrogen:
  "snd (get_lulc_data lt net lat lon) = Inr v \<Longrightarrow> map_of v ''nitrogen'' = None"
  by (auto simp: get_lulc_data_def lulc_try_def get_fallback_lulc_def
      split: if_splits sum.splits pyval.splits)

text \<open>
  In every profile that \<^verbatim>\<open>get_soil_properties\<close> returns, the nitrogen level is
  absent or one of the tier strings; a profile that has it makes
  \<^verbatim>\<open>calculate_crop_score\<close> raise.
\<close>

lemma soil_properties_nitrogen:
  assumes "snd (get_soil_properties lt net lat lon) = Inr v"
  shows "tier_ok v"
proof -
  obtain r1 lulc where l: "get_lulc_data lt net lat lon = (r1, Inr lulc)"
    using lulc_returns [of lt net lat lon] by (cases "get_lulc_data lt net lat lon") auto
  obtain r2 sg where g: "get_soilgrids_data net lat lon = (r2, Inr sg)"
    using soilgrids_returns [of net lat lon] by (cases "get_soilgrids_data net lat lon") auto
  from l have ln: "map_of lulc ''nitrogen'' = None"
    using lulc_data_no_nitrogen [of lt net lat lon lulc] by simp
  from g have st: "tier_ok sg"
    using soilgrids_data_tier [of net lat lon sg] by simp
  have m: "tier_ok (merge_soil lulc sg)"
    using st by (auto simp: tier_ok_def merge_soil_def AList.update_conv' dict_get_default_def
        split: option.splits)
  from lulc_returns [of lt net lat lon] l have ne: "lulc \<noteq> []" by simp
  from assms l g ne have "v = merge_soil lulc sg \<or> v = lulc"
    by (auto simp: get_soil_properties_def split: if_splits)
  with m ln show ?thesis by (auto simp: tier_ok_def)
qed

lemma soil_properties_nitrogen_raises:
  assumes "snd (get_soil_properties lt net lat lon) = Inr v" and "populated v ''nitrogen''"
  shows "calculate_crop_score c v w s = Inl TypeError"
proof -
  from soil_properties_nitrogen [OF assms(1)] assms(2)
  obtain t where "dict_get v ''nitrogen'' = PStr t" "t \<noteq> []"
    by (auto simp: tier_ok_def populated_def dict_get_def split: option.splits)
  then show ?thesis by (rule nitrogen_string_raises)
qed

text \<open>
  Claim C4, at the input where no land-cover token is configured and the SoilGrids
  request fails. The claim says that the aggregated profile has every required field
  populated. \<^verbatim>\<open>_get_soilgrids_data\<close> returns the empty dictionary on a failure, the
  test \<^verbatim>\<open>lulc_data and soil_grid_data\<close> is then false, and
  \<^verbatim>\<open>lulc_data or soil_grid_data or self._get_fallback_soil_properties()\<close> is the
  land-cover sample alone: pH, nitrogen, phosphorus, potassium and organic carbon are
  absent from the profile.
\<close>

theorem soil_profile_missing_chemistry:
  "snd (get_soil_properties [] (\<lambda>url. TransportError) (PNum 30.9010) (PNum 75.8573))
     = Inr (get_fallback_lulc (PNum 30.9010) (PNum 75.8573))
   \<and> filter (\<lambda>k. \<not> populated (get_fallback_lulc (PNum 30.9010) (PNum 75.8573)) k)
        required_soil_fields
     = [''ph'', ''nitrogen'', ''phosphorus'', ''potassium'', ''organic_carbon'']"
  by (simp add: get_soil_properties_def get_lulc_data_def get_soilgrids_data_def soilgrids_try_def
      http_get_json_def get_fallback_lulc_def populated_def required_soil_fields_def dict_get_def)

text \<open>When both samples are non-empty the merge does populate every required field
  that the land-cover sample or a default provides.\<close>

lemma merge_soil_chemistry:
  "map_of (merge_soil lulc_data soil_grid_data) ''ph''
     = Some (dict_get_default soil_grid_data ''ph'' (PNum 6.5))
   \<and> map_of (merge_soil lulc_data soil_grid_data) ''nitrogen''
     = Some (dict_get_default soil_grid_data ''nitrogen'' (PStr ''medium''))
   \<and> map_of (merge_soil lulc_data soil_grid_data) ''phosphorus''
     = Some (dict_get_default soil_grid_data ''phosphorus'' (PStr ''medium''))
   \<and> map_of (merge_soil lulc_data soil_grid_data) ''potassium''
     = Some (dict_get_default soil_grid_data ''potassium'' (PStr ''medium''))
   \<and> map_of (merge_soil lulc_data soil_grid_data) ''organic_carbon''
     = Some (dict_get_default soil_grid_data ''organic_carbon'' (PNum 1.5))"
  by (simp add: merge_soil_def AList.update_conv')

section \<open>Properties of the recommendation cache\<close>

subsection \<open>The cache read\<close>

text \<open>An entry is served exactly when the reading of the clock is before its
  \<^verbatim>\<open>expires_at\<close>; an expired entry and a cleared entry give what an absent entry
  gives.\<close>

lemma cache_lookup_entry:
  "db (cache_key uid) = Some doc \<Longrightarrow> expires_at doc = Some t \<Longrightarrow>
   cache_lookup db uid now =
     (if now < t then Inr (Some (AList.update ''from_cache'' (PBool True) (data doc)))
      else Inr None)"
  by (simp add: cache_lookup_def)

lemma cache_lookup_absent: "db (cache_key uid) = None \<Longrightarrow> cache_lookup db uid now = Inr None"
  by (simp add: cache_lookup_def)

lemma cache_lookup_cleared: "cache_lookup (cache_clear db uid) uid now = Inr None"
  by (simp add: cache_lookup_def cache_clear_def)

subsection \<open>The route never stores\<close>

lemma compute_fresh_fails:
  "isl (fst (compute_fresh B gt lt net clock db uid user top_n))
   \<and> snd (compute_fresh B gt lt net clock db uid user top_n) = db"
  by (simp add: compute_fresh_def service_get_recommendations_def getattr_def
      CropRecommenderService_attributes_def
      split: pyval.splits sum.splits option.splits prod.splits)


lemma route_refresh_fails:
  "isl (fst (get_recommendations B gt lt net users db clock uid True top_n cu))"
  by (simp add: get_recommendations_def compute_fresh_fails split: option.splits)



section \<open>Properties of the recommender service and the route\<close>

subsection \<open>The sort\<close>

lemma those_map_the:
  "those (map f xs) = Some ks \<Longrightarrow> ks = map (\<lambda>x. the (f x)) xs"
  by (induction xs arbitrary: ks) (auto split: option.splits)

lemma those_map_Some:
  "list_all (\<lambda>r. f r \<noteq> None) rs \<Longrightarrow> \<exists>ks. those (map f rs) = Some ks \<and> length ks = length rs"
  by (induction rs) (auto split: option.splits)

lemma sort_by_confidence_decorated:
  assumes "sort_by_confidence recs = Inr s"
  shows "s = map snd (sort_key (\<lambda>p. - fst p) (map (\<lambda>r. (the (confidence_score r), r)) recs))"
proof -
  from assms obtain ks where ks: "those (map confidence_score recs) = Some ks"
    and s: "s = map snd (sort_key (\<lambda>p. - fst p) (zip ks recs))"
    by (auto simp: sort_by_confidence_def split: option.splits)
  from those_map_the [OF ks] have "zip ks recs = map (\<lambda>r. (the (confidence_score r), r)) recs"
    by (simp add: zip_map1 zip_same_conv_map)
  with s show ?thesis by simp
qed

text \<open>The sorted list is descending in the confidence score, and entries with the
  same score keep the order they had (the order of the catalogue).\<close>

lemma sort_by_confidence_descending:
  assumes "sort_by_confidence recs = Inr s"
  shows "sorted (map (\<lambda>r. - the (confidence_score r)) s)"
proof -
  let ?dec = "map (\<lambda>r. (the (confidence_score r), r)) recs"
  let ?srt = "sort_key (\<lambda>p. - fst p) ?dec"
  have s: "s = map snd ?srt" using assms by (rule sort_by_confidence_decorated)
  have "\<forall>p \<in> set ?srt. fst p = the (confidence_score (snd p))" by auto
  then have "map (\<lambda>r. - the (confidence_score r)) s = map (\<lambda>p. - fst p) ?srt"
    unfolding s by (simp add: comp_def)
  then show ?thesis by simp
qed

lemma sort_by_confidence_stable:
  assumes "sort_by_confidence recs = Inr s"
  shows "filter (\<lambda>r. the (confidence_score r) = k) s
       = filter (\<lambda>r. the (confidence_score r) = k) recs"
proof -
  let ?dec = "map (\<lambda>r. (the (confidence_score r), r)) recs"
  let ?srt = "sort_key (\<lambda>p. - fst p) ?dec"
  have s: "s = map snd ?srt" using assms by (rule sort_by_confidence_decorated)
  have st: "filter (\<lambda>p. - fst p = - k) ?srt = filter (\<lambda>p. - fst p = - k) ?dec"
    by (rule sort_key_stable)
  have inv: "\<forall>p \<in> set ?srt. fst p = the (confidence_score (snd p))" by auto
  have "filter (\<lambda>r. the (confidence_score r) = k) s
      = map snd (filter (\<lambda>p. the (confidence_score (snd p)) = k) ?srt)"
    unfolding s by (simp add: filter_map comp_def)
  also have "filter (\<lambda>p. the (confidence_score (snd p)) = k) ?srt
      = filter (\<lambda>p. - fst p = - k) ?srt"
    using inv by (intro filter_cong) auto
  also have "\<dots> = filter (\<lambda>p. - fst p = - k) ?dec" by (rule st)
  also have "map snd \<dots> = filter (\<lambda>r. the (confidence_score r) = k) recs"
    by (simp add: filter_map comp_def)
  finally show ?thesis .
qed

subsection \<open>The loop with a constructor that accepts its keywords\<close>

lemma confidence_kwargs: "confidence_score (recommendation_kwargs B n c x r) = Some (round2 B x)"
  by (simp add: confidence_score_def recommendation_kwargs_def)

lemma loop_Inr_length:
  "recommend_loop Inr B soil w s items acc = Inr rs \<Longrightarrow>
   length rs = length acc + length (filter (above_threshold soil w s) items)"
  by (induction items arbitrary: acc)
    (auto simp: above_threshold_def split: sum.splits if_splits)

lemma loop_Inr_keys:
  "recommend_loop Inr B soil w s items acc = Inr rs \<Longrightarrow>
   list_all (\<lambda>r. confidence_score r \<noteq> None) acc \<Longrightarrow>
   list_all (\<lambda>r. confidence_score r \<noteq> None) rs"
  by (induction items arbitrary: acc)
    (auto simp: confidence_kwargs split: sum.splits if_splits)

lemma loop_Inr_returns:
  assumes "\<And>n c x. \<exists>r. generate_reasoning B n c soil w x s = Inr r"
    and "list_all (\<lambda>item. \<not> isl (calculate_crop_score (snd item) soil w s)) items"
  shows "\<exists>rs. recommend_loop Inr B soil w s items acc = Inr rs"
  using assms(2)
proof (induction items arbitrary: acc)
  case Nil
  then show ?case by simp
next
  case (Cons item items)
  from Cons.prems obtain x where x: "calculate_crop_score (snd item) soil w s = Inr x"
    by (cases "calculate_crop_score (snd item) soil w s") auto
  from assms(1) obtain r where r: "generate_reasoning B (fst item) (snd item) soil w x s = Inr r"
    by blast
  from Cons.prems
  have rest: "list_all (\<lambda>item. \<not> isl (calculate_crop_score (snd item) soil w s)) items"
    by simp
  show ?case
    using Cons.IH [OF rest] by (simp add: x r)
qed

text \<open>Whatever the constructor, at most five recommendations are returned.\<close>

lemma recommend_crops_with_at_most_5:
  "recommend_crops_with ctor B soil w season_arg month = Inr rs \<Longrightarrow> length rs \<le> 5"
  by (auto simp: recommend_crops_with_def Let_def split: sum.splits)

subsection \<open>The request with seven crops above the threshold\<close>

text \<open>The soil \<open>soil_ph65\<close>, no weather data, season Rabi: the seven crops with Rabi among
  their seasons score between 0.57 and 0.595, the other three below 0.4.\<close>

lemma scores_ph65_rabi:
  "calculate_crop_score Rice soil_ph65 [] ''Rabi'' = Inr 0.57"
  "calculate_crop_score Wheat soil_ph65 [] ''Rabi'' = Inr 0.585"
  "calculate_crop_score Sugarcane soil_ph65 [] ''Rabi'' = Inr 0.36"
  "calculate_crop_score Cotton soil_ph65 [] ''Rabi'' = Inr 0.365"
  "calculate_crop_score Maize soil_ph65 [] ''Rabi'' = Inr 0.58"
  "calculate_crop_score Groundnut soil_ph65 [] ''Rabi'' = Inr 0.39"
  "calculate_crop_score Pulses soil_ph65 [] ''Rabi'' = Inr 0.595"
  "calculate_crop_score Potato soil_ph65 [] ''Rabi'' = Inr 0.575"
  "calculate_crop_score Tomato soil_ph65 [] ''Rabi'' = Inr 0.57"
  "calculate_crop_score Onion soil_ph65 [] ''Rabi'' = Inr 0.575"
  by (simp_all add: calculate_crop_score_def score_parts_def ph_points_def temp_points_def
      nitrogen_points_def season_points_def dict_get_def soil_ph65_def
      Rice_def Wheat_def Sugarcane_def Cotton_def Maize_def
      Groundnut_def Pulses_def Potato_def Tomato_def Onion_def)

lemma seven_above_threshold:
  "length (filter (above_threshold soil_ph65 [] ''Rabi'') crop_database) = 7"
  by (simp add: above_threshold_def crop_database_def scores_ph65_rabi)

lemma reasoning_returns_ph65:
  "\<exists>r. generate_reasoning B n c soil_ph65 [] x s = Inr r"
  by (simp add: generate_reasoning_def dict_get_def soil_ph65_def Let_def)

lemma constructor_rejects_kwargs:
  "CropRecommendation_init (recommendation_kwargs B n c x r) = Inl ValidationError"
  by (simp add: CropRecommendation_init_def recommendation_kwargs_def
      CropRecommendation_required_def)

lemma loop_raises_ph65:
  "recommend_loop CropRecommendation_init B soil_ph65 [] ''Rabi'' crop_database []
     = Inl ValidationError"
proof -
  obtain r where
    "generate_reasoning B ''Rice'' Rice soil_ph65 [] (57 / 100) ''Rabi'' = Inr r"
    using reasoning_returns_ph65 by blast
  then show ?thesis
    by (simp add: crop_database_def scores_ph65_rabi constructor_rejects_kwargs)
qed

lemma five_returned_ph65:
  "\<exists>rs. recommend_crops_with Inr B soil_ph65 [] (Some ''Rabi'') month = Inr rs
        \<and> length rs = 5"
proof -
  let ?soil = soil_ph65
  have "list_all (\<lambda>item. \<not> isl (calculate_crop_score (snd item) ?soil [] ''Rabi''))
          crop_database"
    by (simp add: crop_database_def scores_ph65_rabi)
  with loop_Inr_returns [of B ?soil "[]" "''Rabi''" crop_database "[]"] reasoning_returns_ph65
  obtain rs where l: "recommend_loop Inr B ?soil [] ''Rabi'' crop_database [] = Inr rs"
    by blast
  from loop_Inr_length [OF l] seven_above_threshold have n: "length rs = 7" by simp
  from loop_Inr_keys [OF l] have "list_all (\<lambda>r. confidence_score r \<noteq> None) rs" by simp
  from those_map_Some [OF this] obtain ks where
    ks: "those (map confidence_score rs) = Some ks" "length ks = length rs" by blast
  show ?thesis
    by (simp add: recommend_crops_with_def l sort_by_confidence_def ks n)
qed

text \<open>
  Claim C2, at the request \<^verbatim>\<open>top_n = 3\<close> with soil pH 6.5 (\<open>soil_ph65\<close>), no
  weather data and the season Rabi, where seven crops of the catalogue score at least 0.5. The claim says
  that the response has exactly three entries. In the code, \<^verbatim>\<open>recommend_crops\<close> has
  no parameter \<^verbatim>\<open>top_n\<close> and slices the list at the constant 5: with a constructor
  that accepts the keywords it is given, five entries are returned. With the
  constructor of the repository the call raises \<^verbatim>\<open>ValidationError\<close> at the first
  crop above the threshold, because required fields of the model are missing. The
  route passes \<^verbatim>\<open>top_n\<close> to a method the service does not define, so a request that
  is not served from the cache ends in an HTTP error for every \<^verbatim>\<open>top_n\<close>.
\<close>

theorem recommend_crops_ignores_top_n:
  "length (filter (above_threshold soil_ph65 [] ''Rabi'') crop_database) = 7
   \<and> recommend_crops B soil_ph65 [] (Some ''Rabi'') month = Inl ValidationError
   \<and> (\<exists>rs. recommend_crops_with Inr B soil_ph65 [] (Some ''Rabi'') month = Inr rs
          \<and> length rs = 5)
   \<and> isl (fst (get_recommendations B gt lt net users db clock uid True 3 cu))"
  using seven_above_threshold loop_raises_ph65 five_returned_ph65 route_refresh_fails
  by (simp add: recommend_crops_def recommend_crops_with_def)

end
